theory Spec2Isabelle
  imports
    Complex_Main
    "HOL-Library.Char_ord"
    "HOL-Library.List_Lexorder"
    "HOL-Library.Sublist"
    "HOL-Library.AList"
    "HOL-Library.Log_Nat"
begin

section \<open>The Python values the monitor works on\<close>

text \<open>
  The embedding follows \<^verbatim>\<open>xpu_monitor.py\<close> function by function.

  \<^item> A Python \<^verbatim>\<open>float\<close> is modelled by a \<^typ>\<open>real\<close>, the value of the double. The
    infinities and NaN are outside the model. Where the program turns a float into a count
    of characters (\<^verbatim>\<open>format_bar\<close>), every operation rounds to the nearest double as IEEE
    754 does (\<open>double\<close>); elsewhere the arithmetic is exact.
  \<^item> A Python \<^verbatim>\<open>int\<close> is an \<^typ>\<open>int\<close>.
  \<^item> Text read by the program (command names, lines of the metric stream, CSV fields) is a
    \<^typ>\<open>string\<close>, one \<^typ>\<open>char\<close> for each code point below 256.
  \<^item> Text written to the terminal is a list of \<open>glyph\<close>s: a \<^typ>\<open>char\<close>, or one of the two code
    points above 255 that the program prints (the full block and the em dash), so that the
    length of a rendered string counts code points as Python does.
  \<^item> An exception is a value of \<open>py_error\<close>; a function that can raise returns
    \<open>py_error + 'a\<close>.
\<close>

datatype py_error =
    FileNotFoundError string
  | OSError
  | CalledProcessError
  | JSONDecodeError
  | CsvError
  | AttributeError
  | TypeError
  | ValueError
  | KeyError

datatype glyph = Ch char | Block | EmDash

type_synonym ustr = "glyph list"

definition ustr_of :: "string \<Rightarrow> ustr" where
  "ustr_of s = map Ch s"

subsection \<open>Library functions on strings and numbers\<close>

text \<open>\<^verbatim>\<open>str.isspace\<close> on one code point below 256.\<close>

definition py_isspace :: "char \<Rightarrow> bool" where
  "py_isspace c = (c \<in> set [CHR 0x09, CHR 0x0A, CHR 0x0B, CHR 0x0C, CHR 0x0D,
                             CHR 0x1C, CHR 0x1D, CHR 0x1E, CHR 0x1F, CHR 0x20,
                             CHR 0x85, CHR 0xA0])"

text \<open>\<^verbatim>\<open>s.strip(chars)\<close>, given the test for the characters to remove.\<close>

definition strip_chars :: "(char \<Rightarrow> bool) \<Rightarrow> string \<Rightarrow> string" where
  "strip_chars P s = rev (dropWhile P (rev (dropWhile P s)))"

definition strip :: "string \<Rightarrow> string" where
  "strip s = strip_chars py_isspace s"

text \<open>\<^verbatim>\<open>sep.join(xs)\<close>.\<close>

fun join :: "'a list \<Rightarrow> 'a list list \<Rightarrow> 'a list" where
  "join sep [] = []"
| "join sep [x] = x"
| "join sep (x # y # ys) = x @ sep @ join sep (y # ys)"

text \<open>\<^verbatim>\<open>s * n\<close> for a one-character string and a Python int: empty when \<open>n \<le> 0\<close>.\<close>

definition py_repeat :: "'a \<Rightarrow> int \<Rightarrow> 'a list" where
  "py_repeat c n = replicate (nat n) c"

text \<open>\<^verbatim>\<open>int(x)\<close> on a float: truncation towards zero.\<close>

definition int_of_float :: "real \<Rightarrow> int" where
  "int_of_float x = (if 0 \<le> x then \<lfloor>x\<rfloor> else \<lceil>x\<rceil>)"

text \<open>Decimal digits of a natural number, as \<^verbatim>\<open>str(n)\<close> prints them.\<close>

definition digit_char :: "nat \<Rightarrow> char" where
  "digit_char d = ''0123456789'' ! d"

function dec_digits :: "nat \<Rightarrow> string" where
  "dec_digits n =
     (if n < 10 then [digit_char n] else dec_digits (n div 10) @ [digit_char (n mod 10)])"
  by pat_completeness auto
termination
  by (relation "measure id") auto

declare dec_digits.simps [simp del]

text \<open>\<^verbatim>\<open>str(i)\<close> for a Python int.\<close>

definition str_int :: "int \<Rightarrow> string" where
  "str_int i = (if i < 0 then ''-'' @ dec_digits (nat (- i)) else dec_digits (nat i))"

text \<open>Rounding to the nearest integer, ties to the even neighbour.\<close>

definition round_half_even :: "real \<Rightarrow> int" where
  "round_half_even x =
     (let f = \<lfloor>x\<rfloor>; r = x - of_int f
      in if r < 1 / 2 then f else if 1 / 2 < r then f + 1 else if even f then f else f + 1)"

text \<open>
  Rounding to the nearest IEEE 754 double, ties to even. The binary exponent \<open>e\<close> of a
  positive \<open>x\<close> is the integer with \<open>2\<^sup>e \<le> x < 2\<^sup>e\<^sup>+\<^sup>1\<close>, computed from the bit length of the
  integer part of \<open>x\<close> or of \<open>1 / x\<close>; a double with that exponent is a multiple of
  \<open>2\<^sup>e\<^sup>-\<^sup>5\<^sup>2\<close>. Overflow to infinity and the subnormal range are not modelled. A float
  operation of Python is the exact operation followed by this rounding; \<^verbatim>\<open>float(i)\<close> for an
  int is the rounding of \<open>i\<close>.
\<close>

definition pow2 :: "int \<Rightarrow> real" where
  "pow2 k = (if 0 \<le> k then 2 ^ nat k else 1 / 2 ^ nat (- k))"

definition binary_exponent :: "real \<Rightarrow> int" where
  "binary_exponent x = (if 1 \<le> x then bitlen \<lfloor>x\<rfloor> - 1 else - bitlen (\<lceil>1 / x\<rceil> - 1))"

definition double :: "real \<Rightarrow> real" where
  "double x =
     (if x = 0 then 0
      else (let e = binary_exponent \<bar>x\<bar>; ulp = pow2 (e - 52)
            in of_int (round_half_even (x / ulp)) * ulp))"

text \<open>
  The format specification \<^verbatim>\<open>{x:W.Pf}\<close>: \<open>x\<close> is rounded to \<open>P\<close> decimals, ties to the
  even neighbour, printed with a minus sign when \<open>x\<close> is negative, and padded with spaces
  on the left to \<open>W\<close> characters.
\<close>

definition rjust :: "nat \<Rightarrow> string \<Rightarrow> string" where
  "rjust w s = replicate (w - length s) CHR '' '' @ s"

definition fixed_digits :: "bool \<Rightarrow> nat \<Rightarrow> nat \<Rightarrow> string" where
  "fixed_digits neg p n =
     (let ds = dec_digits n;
          ds' = replicate (Suc p - length ds) CHR ''0'' @ ds
      in (if neg then ''-'' else [])
         @ take (length ds' - p) ds'
         @ (if p = 0 then [] else ''.'' @ drop (length ds' - p) ds'))"

definition fmt_f :: "nat \<Rightarrow> nat \<Rightarrow> real \<Rightarrow> string" where
  "fmt_f w p x = rjust w (fixed_digits (x < 0) p (nat (round_half_even (\<bar>x\<bar> * 10 ^ p))))"

section \<open>Terminal constants\<close>

definition ESC :: char where
  "ESC = CHR 0x1B"

definition RESET :: ustr where
  "RESET = ustr_of (ESC # ''[0m'')"

definition COLOR_GREEN :: ustr where
  "COLOR_GREEN = ustr_of (ESC # ''[38;5;40m'')"

definition COLOR_YELLOW :: ustr where
  "COLOR_YELLOW = ustr_of (ESC # ''[38;5;214m'')"

definition COLOR_RED :: ustr where
  "COLOR_RED = ustr_of (ESC # ''[38;5;203m'')"

definition COLOR_DIM :: ustr where
  "COLOR_DIM = ustr_of (ESC # ''[2m'')"

definition COLOR_BOLD :: ustr where
  "COLOR_BOLD = ustr_of (ESC # ''[1m'')"

definition CLEAR_SCREEN :: ustr where
  "CLEAR_SCREEN = ustr_of (ESC # ''[2J'')"

definition CURSOR_HOME :: ustr where
  "CURSOR_HOME = ustr_of (ESC # ''[H'')"

definition ALT_SCREEN_ENABLE :: ustr where
  "ALT_SCREEN_ENABLE = ustr_of (ESC # ''[?1049h'')"

definition ALT_SCREEN_DISABLE :: ustr where
  "ALT_SCREEN_DISABLE = ustr_of (ESC # ''[?1049l'')"

definition HIDE_CURSOR :: ustr where
  "HIDE_CURSOR = ustr_of (ESC # ''[?25l'')"

definition SHOW_CURSOR :: ustr where
  "SHOW_CURSOR = ustr_of (ESC # ''[?25h'')"

definition AUTO_CMD :: string where
  "AUTO_CMD = ''auto''"

definition CMD_FALLBACKS :: "string list" where
  "CMD_FALLBACKS = [''xpumcli'', ''xpu-smi'']"

section \<open>The progress bar\<close>

definition color_for_percent :: "real \<Rightarrow> ustr" where
  "color_for_percent percent =
     (if percent \<ge> 85 then COLOR_RED
      else if percent \<ge> 60 then COLOR_YELLOW
      else COLOR_GREEN)"

definition format_bar :: "real \<Rightarrow> int \<Rightarrow> ustr" where
  "format_bar percent0 width =
     (let percent = max 0 (min 100 percent0);
          filled = int_of_float (double (double (percent / 100) * double (of_int width)));
          remaining = width - filled;
          bar = color_for_percent percent @ py_repeat Block filled @ RESET;
          bar' = (if remaining > 0 then bar @ COLOR_DIM @ py_repeat Block remaining @ RESET
                  else bar)
      in bar' @ ustr_of '' '' @ ustr_of (fmt_f 5 1 percent) @ ustr_of ''%'')"

section \<open>Dictionaries\<close>

text \<open>
  A Python \<^verbatim>\<open>dict\<close> keeps its keys in insertion order, which the renderer must not depend
  on: it is modelled by an association list. Assigning to a key that is present replaces
  the value in place, assigning to a new key appends it (\<^const>\<open>AList.update\<close>).
\<close>

type_synonym ('k, 'v) dict = "('k \<times> 'v) list"

definition dict_get :: "('k, 'v) dict \<Rightarrow> 'k \<Rightarrow> 'v option" where
  "dict_get d k = map_of d k"

definition dict_set :: "('k, 'v) dict \<Rightarrow> 'k \<Rightarrow> 'v \<Rightarrow> ('k, 'v) dict" where
  "dict_set d k v = AList.update k v d"

text \<open>\<^verbatim>\<open>dict(zip(ks, vs))\<close>: a key that occurs twice keeps its last value.\<close>

definition dict_zip :: "'k list \<Rightarrow> 'v list \<Rightarrow> ('k, 'v) dict" where
  "dict_zip ks vs = fold (\<lambda>(k, v) d. dict_set d k v) (zip ks vs) []"

text \<open>\<^verbatim>\<open>sorted(d)\<close>: the keys in ascending order.\<close>

definition sorted_keys :: "(int, 'v) dict \<Rightarrow> int list" where
  "sorted_keys d = sort (map fst d)"

section \<open>Data model\<close>

record DeviceMetadata =
  name :: "string option"
  memory_total_mib :: "real option"

record DeviceSample =
  timestamp :: string
  mem_used_mib :: "real option"
  mem_util_percent :: "real option"
  power_watts :: "real option"
  temp_c :: "real option"

text \<open>\<^verbatim>\<open>DeviceMetadata()\<close>: both fields default to \<^verbatim>\<open>None\<close>.\<close>

definition DeviceMetadata_default :: DeviceMetadata where
  "DeviceMetadata_default = \<lparr>name = None, memory_total_mib = None\<rparr>"

section \<open>Parsing numbers\<close>

definition is_digit :: "char \<Rightarrow> bool" where
  "is_digit c = (c \<in> set ''0123456789'')"

definition digit_val :: "char \<Rightarrow> nat" where
  "digit_val c = of_char c - 48"

definition nat_of_digits :: "string \<Rightarrow> nat" where
  "nat_of_digits ds = foldl (\<lambda>a c. 10 * a + digit_val c) 0 ds"

text \<open>
  The grammar of numeric literals in \<^verbatim>\<open>int(s)\<close> and \<^verbatim>\<open>float(s)\<close>: a digit part is a digit
  followed by digits, each optionally preceded by one underscore. \<open>more_digits\<close> reads the
  digits after the first one and returns them with the rest of the input.
\<close>

fun more_digits :: "string \<Rightarrow> string \<times> string" where
  "more_digits [] = ([], [])"
| "more_digits [c] = (if is_digit c then ([c], []) else ([], [c]))"
| "more_digits (c # d # cs) =
     (if is_digit c then (let (ds, r) = more_digits (d # cs) in (c # ds, r))
      else if c = CHR ''_'' \<and> is_digit d then (let (ds, r) = more_digits cs in (d # ds, r))
      else ([], c # d # cs))"

definition digitpart :: "string \<Rightarrow> (string \<times> string) option" where
  "digitpart s =
     (case s of
        [] \<Rightarrow> None
      | c # cs \<Rightarrow> if is_digit c then (let (ds, r) = more_digits cs in Some (c # ds, r))
                 else None)"

text \<open>An optional sign: whether it is a minus, and the rest.\<close>

definition split_sign :: "string \<Rightarrow> bool \<times> string" where
  "split_sign s =
     (case s of
        [] \<Rightarrow> (False, [])
      | c # cs \<Rightarrow> if c = CHR ''-'' then (True, cs)
                 else if c = CHR ''+'' then (False, cs)
                 else (False, c # cs))"

text \<open>
  \<^verbatim>\<open>int(s)\<close> on a string: \<^verbatim>\<open>None\<close> stands for the \<^verbatim>\<open>ValueError\<close> it raises. Surrounding
  whitespace is ignored; CPython refuses literals of more than 4300 digits.
\<close>

definition py_int :: "string \<Rightarrow> int option" where
  "py_int s =
     (let (neg, body) = split_sign (strip s)
      in case digitpart body of
           None \<Rightarrow> None
         | Some (ds, r) \<Rightarrow>
             if r \<noteq> [] \<or> int (length ds) > 4300 then None
             else Some (if neg then - int (nat_of_digits ds) else int (nat_of_digits ds)))"

text \<open>
  \<^verbatim>\<open>float(s)\<close> on a string: \<^verbatim>\<open>None\<close> stands for the \<^verbatim>\<open>ValueError\<close> it raises. The value
  is the exact decimal value of the literal. The literals \<^verbatim>\<open>inf\<close>, \<^verbatim>\<open>infinity\<close> and
  \<^verbatim>\<open>nan\<close>, which Python accepts, denote no real number and are outside the model: here they
  do not parse.
\<close>

definition float_exponent :: "real \<Rightarrow> string \<Rightarrow> real option" where
  "float_exponent m r =
     (case r of
        [] \<Rightarrow> Some m
      | c # r' \<Rightarrow>
          if c = CHR ''e'' \<or> c = CHR ''E'' then
            (let (eneg, r'') = split_sign r'
             in case digitpart r'' of
                  None \<Rightarrow> None
                | Some (es, rest) \<Rightarrow>
                    if rest \<noteq> [] then None
                    else Some (if eneg then m / 10 ^ nat_of_digits es
                               else m * 10 ^ nat_of_digits es))
          else None)"

definition mantissa :: "string \<Rightarrow> string \<Rightarrow> real" where
  "mantissa ip fp = real (nat_of_digits (ip @ fp)) / 10 ^ length fp"

definition float_number :: "string \<Rightarrow> real option" where
  "float_number s =
     (case digitpart s of
        Some (ip, r) \<Rightarrow>
          (case r of
             [] \<Rightarrow> Some (mantissa ip [])
           | c # r' \<Rightarrow>
               if c = CHR ''.'' then
                 (case digitpart r' of
                    Some (fp, r'') \<Rightarrow> float_exponent (mantissa ip fp) r''
                  | None \<Rightarrow> float_exponent (mantissa ip []) r')
               else float_exponent (mantissa ip []) r)
      | None \<Rightarrow>
          (case s of
             [] \<Rightarrow> None
           | c # r' \<Rightarrow>
               if c = CHR ''.'' then
                 (case digitpart r' of
                    Some (fp, r'') \<Rightarrow> float_exponent (mantissa [] fp) r''
                  | None \<Rightarrow> None)
               else None))"

definition py_float :: "string \<Rightarrow> real option" where
  "py_float s =
     (let (neg, body) = split_sign (strip s)
      in case float_number body of
           None \<Rightarrow> None
         | Some v \<Rightarrow> Some (if neg then - v else v))"

definition to_float :: "string option \<Rightarrow> real option" where
  "to_float value =
     (case value of
        None \<Rightarrow> None
      | Some v \<Rightarrow>
          (let v' = strip v
           in if v' = [] then None else py_float v'))"

definition parse_int :: "string option \<Rightarrow> int option" where
  "parse_int value =
     (case value of
        None \<Rightarrow> None
      | Some v \<Rightarrow>
          (let v' = strip v
           in if v' = [] then None else py_int v'))"

text \<open>\<^verbatim>\<open>s.replace(sub, '')\<close>: every occurrence of \<open>sub\<close>, from the left, is removed.\<close>

fun remove_all :: "string \<Rightarrow> string \<Rightarrow> string" where
  "remove_all sub [] = []"
| "remove_all sub (c # cs) =
     (if sub \<noteq> [] \<and> prefix sub (c # cs) then remove_all sub (drop (length sub) (c # cs))
      else c # remove_all sub cs)"

definition parse_mib :: "string option \<Rightarrow> real option" where
  "parse_mib value =
     (case value of
        None \<Rightarrow> None
      | Some v \<Rightarrow> to_float (Some (strip (remove_all ''MiB'' v))))"

section \<open>The CSV reader\<close>

text \<open>
  \<^verbatim>\<open>csv.reader(lines, skipinitialspace=True)\<close> in the default dialect (delimiter comma,
  quote character \<^verbatim>\<open>"\<close>, doubled quotes, no escape character, not strict), as the state
  machine of CPython's \<^verbatim>\<open>_csv\<close> module. The end of a line is the input \<open>None\<close>. The
  reader raises \<^verbatim>\<open>csv.Error\<close> on a character after a line break outside quotes and on a
  field longer than the field size limit.
\<close>

datatype csv_state =
  START_RECORD | START_FIELD | IN_FIELD | IN_QUOTED_FIELD | QUOTE_IN_QUOTED_FIELD | EAT_CRNL

record csv_reader =
  rd_state :: csv_state
  rd_field :: string
  rd_fields :: "string list"

definition field_size_limit :: int where
  "field_size_limit = 131072"

definition parse_reset :: csv_reader where
  "parse_reset = \<lparr>rd_state = START_RECORD, rd_field = [], rd_fields = []\<rparr>"

definition parse_save_field :: "csv_reader \<Rightarrow> csv_reader" where
  "parse_save_field r = r\<lparr>rd_fields := rd_fields r @ [rd_field r], rd_field := []\<rparr>"

definition parse_add_char :: "csv_reader \<Rightarrow> char \<Rightarrow> py_error + csv_reader" where
  "parse_add_char r c =
     (if int (length (rd_field r)) \<ge> field_size_limit then Inl CsvError
      else Inr (r\<lparr>rd_field := rd_field r @ [c]\<rparr>))"

definition is_newline :: "char \<Rightarrow> bool" where
  "is_newline c = (c = CHR 0x0A \<or> c = CHR 0x0D)"

definition set_state :: "csv_state \<Rightarrow> py_error + csv_reader \<Rightarrow> py_error + csv_reader" where
  "set_state s x = (case x of Inl e \<Rightarrow> Inl e | Inr r \<Rightarrow> Inr (r\<lparr>rd_state := s\<rparr>))"

definition start_field :: "csv_reader \<Rightarrow> char \<Rightarrow> py_error + csv_reader" where
  "start_field r c =
     (if is_newline c then Inr ((parse_save_field r)\<lparr>rd_state := EAT_CRNL\<rparr>)
      else if c = CHR 0x22 then Inr (r\<lparr>rd_state := IN_QUOTED_FIELD\<rparr>)
      else if c = CHR '' '' then Inr r
      else if c = CHR '','' then Inr (parse_save_field r)
      else set_state IN_FIELD (parse_add_char r c))"

fun parse_process_char :: "csv_reader \<Rightarrow> char option \<Rightarrow> py_error + csv_reader" where
  "parse_process_char r None =
     (case rd_state r of
        START_RECORD \<Rightarrow> Inr r
      | START_FIELD \<Rightarrow> Inr ((parse_save_field r)\<lparr>rd_state := START_RECORD\<rparr>)
      | IN_FIELD \<Rightarrow> Inr ((parse_save_field r)\<lparr>rd_state := START_RECORD\<rparr>)
      | IN_QUOTED_FIELD \<Rightarrow> Inr r
      | QUOTE_IN_QUOTED_FIELD \<Rightarrow> Inr ((parse_save_field r)\<lparr>rd_state := START_RECORD\<rparr>)
      | EAT_CRNL \<Rightarrow> Inr (r\<lparr>rd_state := START_RECORD\<rparr>))"
| "parse_process_char r (Some c) =
     (case rd_state r of
        START_RECORD \<Rightarrow>
          if is_newline c then Inr (r\<lparr>rd_state := EAT_CRNL\<rparr>)
          else start_field (r\<lparr>rd_state := START_FIELD\<rparr>) c
      | START_FIELD \<Rightarrow> start_field r c
      | IN_FIELD \<Rightarrow>
          if is_newline c then Inr ((parse_save_field r)\<lparr>rd_state := EAT_CRNL\<rparr>)
          else if c = CHR '','' then Inr ((parse_save_field r)\<lparr>rd_state := START_FIELD\<rparr>)
          else parse_add_char r c
      | IN_QUOTED_FIELD \<Rightarrow>
          if c = CHR 0x22 then Inr (r\<lparr>rd_state := QUOTE_IN_QUOTED_FIELD\<rparr>)
          else parse_add_char r c
      | QUOTE_IN_QUOTED_FIELD \<Rightarrow>
          if c = CHR 0x22 then set_state IN_QUOTED_FIELD (parse_add_char r c)
          else if c = CHR '','' then Inr ((parse_save_field r)\<lparr>rd_state := START_FIELD\<rparr>)
          else if is_newline c then Inr ((parse_save_field r)\<lparr>rd_state := EAT_CRNL\<rparr>)
          else set_state IN_FIELD (parse_add_char r c)
      | EAT_CRNL \<Rightarrow> if is_newline c then Inr r else Inl CsvError)"

text \<open>One line of input: its characters, then the end-of-line marker.\<close>

fun parse_line :: "csv_reader \<Rightarrow> string \<Rightarrow> py_error + csv_reader" where
  "parse_line r [] = parse_process_char r None"
| "parse_line r (c # cs) =
     (case parse_process_char r (Some c) of
        Inl e \<Rightarrow> Inl e
      | Inr r' \<Rightarrow> parse_line r' cs)"

text \<open>
  \<^verbatim>\<open>list(csv.reader(lines, ...))\<close>: a record is complete when the reader is back in
  \<^const>\<open>START_RECORD\<close> at the end of a line; otherwise (inside a quoted field) the next line
  continues it, and the end of the input closes it.
\<close>

fun csv_rows :: "csv_reader \<Rightarrow> string list \<Rightarrow> string list list \<Rightarrow> py_error + string list list"
  where
  "csv_rows r [] rows =
     (if rd_field r \<noteq> [] \<or> rd_state r = IN_QUOTED_FIELD
      then Inr (rows @ [rd_fields (parse_save_field r)])
      else Inr rows)"
| "csv_rows r (l # ls) rows =
     (case parse_line r l of
        Inl e \<Rightarrow> Inl e
      | Inr r' \<Rightarrow>
          if rd_state r' \<noteq> START_RECORD then csv_rows r' ls rows
          else csv_rows parse_reset ls (rows @ [rd_fields r']))"

definition csv_reader_list :: "string list \<Rightarrow> py_error + string list list" where
  "csv_reader_list lines = csv_rows parse_reset lines []"

text \<open>\<^verbatim>\<open>next(csv.reader([line], skipinitialspace=True), [])\<close>.\<close>

definition parse_csv_line :: "string \<Rightarrow> py_error + string list" where
  "parse_csv_line line =
     (case csv_reader_list [line] of
        Inl e \<Rightarrow> Inl e
      | Inr [] \<Rightarrow> Inr []
      | Inr (row # _) \<Rightarrow> Inr row)"

section \<open>The renderer\<close>

text \<open>\<^verbatim>\<open>max((s.timestamp for s in stats.values() if s.timestamp), default='N/A')\<close>.\<close>

definition latest_ts_of :: "(int, DeviceSample) dict \<Rightarrow> string" where
  "latest_ts_of device_stats =
     (case filter (\<lambda>t. t \<noteq> []) (map (\<lambda>(d, sample). timestamp sample) device_stats) of
        [] \<Rightarrow> ''N/A''
      | t # ts \<Rightarrow> fold max ts t)"

text \<open>\<^verbatim>\<open>sample.mem_used_mib or 0.0\<close>.\<close>

definition mem_used_of :: "DeviceSample \<Rightarrow> real" where
  "mem_used_of sample =
     (case mem_used_mib sample of None \<Rightarrow> 0 | Some x \<Rightarrow> if x \<noteq> 0 then x else 0)"

text \<open>The local \<^verbatim>\<open>mem_percent\<close> as it reaches \<^verbatim>\<open>format_bar\<close>.\<close>

definition mem_percent_of :: "DeviceSample \<Rightarrow> DeviceMetadata \<Rightarrow> real" where
  "mem_percent_of sample meta =
     (let mem_percent = mem_util_percent sample;
          mem_percent' =
            (case memory_total_mib meta of
               None \<Rightarrow> mem_percent
             | Some total_mib \<Rightarrow>
                 if total_mib \<noteq> 0 \<and> mem_percent = None \<and> total_mib > 0
                 then Some ((mem_used_of sample / total_mib) * 100)
                 else mem_percent)
      in case mem_percent' of None \<Rightarrow> 0 | Some p \<Rightarrow> p)"

text \<open>The local \<^verbatim>\<open>mem_line\<close>.\<close>

definition mem_line_of :: "DeviceSample \<Rightarrow> DeviceMetadata \<Rightarrow> string" where
  "mem_line_of sample meta =
     fmt_f 6 2 (mem_used_of sample / 1024) @ '' GiB''
     @ (case memory_total_mib meta of
          None \<Rightarrow> []
        | Some total_mib \<Rightarrow>
            if total_mib \<noteq> 0 then '' / '' @ fmt_f 6 2 (total_mib / 1024) @ '' GiB'' else [])"

definition NA_PLACEHOLDER :: string where
  "NA_PLACEHOLDER = ''  N/A  ''"

definition power_str_of :: "DeviceSample \<Rightarrow> ustr" where
  "power_str_of sample =
     (case power_watts sample of
        Some p \<Rightarrow> ustr_of (fmt_f 6 1 p @ '' W'')
      | None \<Rightarrow> ustr_of NA_PLACEHOLDER)"

text \<open>The degree sign is the code point \<open>0xB0\<close>.\<close>

definition temp_str_of :: "DeviceSample \<Rightarrow> ustr" where
  "temp_str_of sample =
     (case temp_c sample of
        Some t \<Rightarrow> ustr_of (fmt_f 5 1 t @ '' '' @ [CHR 0xB0] @ ''C'')
      | None \<Rightarrow> ustr_of NA_PLACEHOLDER)"

definition device_label_of :: "DeviceMetadata \<Rightarrow> int \<Rightarrow> string" where
  "device_label_of meta device_id =
     (case name meta of
        None \<Rightarrow> ''Device '' @ str_int device_id
      | Some n \<Rightarrow> if n \<noteq> [] then n else ''Device '' @ str_int device_id)"

definition title_line :: "DeviceMetadata \<Rightarrow> int \<Rightarrow> ustr" where
  "title_line meta device_id =
     COLOR_BOLD @ ustr_of (device_label_of meta device_id) @ RESET
     @ ustr_of ('' (ID '' @ str_int device_id @ '')'')"

definition mem_row :: "DeviceSample \<Rightarrow> DeviceMetadata \<Rightarrow> int \<Rightarrow> ustr" where
  "mem_row sample meta bar_width =
     ustr_of (''  Mem '' @ mem_line_of sample meta @ '' | '')
     @ format_bar (mem_percent_of sample meta) bar_width"

definition power_row :: "DeviceSample \<Rightarrow> ustr" where
  "power_row sample =
     ustr_of ''  Power '' @ power_str_of sample @ ustr_of '' | Temp '' @ temp_str_of sample"

text \<open>\<^verbatim>\<open>metadata.get(device_id, DeviceMetadata())\<close>.\<close>

definition metadata_get :: "(int, DeviceMetadata) dict \<Rightarrow> int \<Rightarrow> DeviceMetadata" where
  "metadata_get metadata device_id =
     (case dict_get metadata device_id of
        None \<Rightarrow> DeviceMetadata_default
      | Some m \<Rightarrow> m)"

text \<open>
  The body of the loop over \<^verbatim>\<open>enumerate(device_ids)\<close>: the lines appended for one device.
  \<open>n\<close> is \<^verbatim>\<open>len(device_ids)\<close>; \<^verbatim>\<open>device_stats[device_id]\<close> raises \<^verbatim>\<open>KeyError\<close> on a
  missing key.
\<close>

definition device_entry ::
  "(int, DeviceSample) dict \<Rightarrow> (int, DeviceMetadata) dict \<Rightarrow> int \<Rightarrow> ustr \<Rightarrow> nat \<Rightarrow> nat \<Rightarrow> int
    \<Rightarrow> py_error + ustr list" where
  "device_entry device_stats metadata bar_width divider n idx device_id =
     (case dict_get device_stats device_id of
        None \<Rightarrow> Inl KeyError
      | Some sample \<Rightarrow>
          (let meta = metadata_get metadata device_id
           in Inr ([title_line meta device_id,
                    mem_row sample meta bar_width,
                    power_row sample]
                   @ (if int idx < int n - 1 then [divider] else [])
                   @ [[]])))"

fun device_entries ::
  "(int, DeviceSample) dict \<Rightarrow> (int, DeviceMetadata) dict \<Rightarrow> int \<Rightarrow> ustr \<Rightarrow> nat \<Rightarrow> nat
    \<Rightarrow> int list \<Rightarrow> py_error + ustr list" where
  "device_entries device_stats metadata bar_width divider n idx [] = Inr []"
| "device_entries device_stats metadata bar_width divider n idx (device_id # rest) =
     (case device_entry device_stats metadata bar_width divider n idx device_id of
        Inl e \<Rightarrow> Inl e
      | Inr ls \<Rightarrow>
          (case device_entries device_stats metadata bar_width divider n (Suc idx) rest of
             Inl e \<Rightarrow> Inl e
           | Inr following \<Rightarrow> Inr (ls @ following)))"

definition header_lines :: "(int, DeviceSample) dict \<Rightarrow> ustr list" where
  "header_lines device_stats =
     [COLOR_BOLD @ ustr_of ''Intel XPU Monitor'' @ RESET @ ustr_of '' '' @ [EmDash]
        @ ustr_of ('' Last update: '' @ latest_ts_of device_stats),
      ustr_of ''Press CTRL+C to exit. Source: xpumcli dump'',
      []]"

definition divider_of :: "int \<Rightarrow> ustr" where
  "divider_of term_width =
     COLOR_DIM @ py_repeat EmDash (max 20 (min 100 term_width)) @ RESET"

text \<open>The list \<^verbatim>\<open>lines\<close> at the end of the loop.\<close>

definition render_lines ::
  "(int, DeviceSample) dict \<Rightarrow> (int, DeviceMetadata) dict \<Rightarrow> int \<Rightarrow> int
    \<Rightarrow> py_error + ustr list" where
  "render_lines device_stats metadata bar_width term_width =
     (let device_ids = sorted_keys device_stats
      in case device_entries device_stats metadata bar_width (divider_of term_width)
                (length device_ids) 0 device_ids of
           Inl e \<Rightarrow> Inl e
         | Inr body \<Rightarrow> Inr (header_lines device_stats @ body))"

definition glyph_isspace :: "glyph \<Rightarrow> bool" where
  "glyph_isspace g = (case g of Ch c \<Rightarrow> py_isspace c | _ \<Rightarrow> False)"

definition rstrip :: "ustr \<Rightarrow> ustr" where
  "rstrip s = rev (dropWhile glyph_isspace (rev s))"

definition NEWLINE :: ustr where
  "NEWLINE = [Ch (CHR 0x0A)]"

definition clear_and_write :: "ustr \<Rightarrow> ustr \<Rightarrow> ustr" where
  "clear_and_write payload stdout = stdout @ CLEAR_SCREEN @ CURSOR_HOME @ payload"

text \<open>
  \<^verbatim>\<open>render_dashboard\<close> takes the terminal output written so far and returns it extended by
  what the call writes. \<open>term_width\<close> is the column count that
  \<^verbatim>\<open>shutil.get_terminal_size\<close> reports.
\<close>

definition render_dashboard ::
  "(int, DeviceSample) dict \<Rightarrow> (int, DeviceMetadata) dict \<Rightarrow> int \<Rightarrow> int \<Rightarrow> ustr
    \<Rightarrow> py_error + ustr" where
  "render_dashboard device_stats metadata bar_width term_width stdout =
     (if device_stats = [] then Inr stdout
      else case render_lines device_stats metadata bar_width term_width of
             Inl e \<Rightarrow> Inl e
           | Inr lines \<Rightarrow>
               Inr (clear_and_write (rstrip (join NEWLINE lines) @ NEWLINE) stdout))"

section \<open>The stream parser and the sample store\<close>

record monitor_state =
  headers :: "string list option"
  device_stats :: "(int, DeviceSample) dict"
  stdout :: ustr

text \<open>\<^verbatim>\<open>row.get('Timestamp', '')\<close>.\<close>

definition get_or_empty :: "(string, string) dict \<Rightarrow> string \<Rightarrow> string" where
  "get_or_empty row k = (case dict_get row k of None \<Rightarrow> [] | Some v \<Rightarrow> v)"

definition sample_of_row :: "(string, string) dict \<Rightarrow> DeviceSample" where
  "sample_of_row row =
     \<lparr>timestamp = get_or_empty row ''Timestamp'',
      mem_used_mib = to_float (dict_get row ''GPU Memory Used (MiB)''),
      mem_util_percent = to_float (dict_get row ''GPU Memory Utilization (%)''),
      power_watts = to_float (dict_get row ''GPU Power (W)''),
      temp_c = to_float (dict_get row ''GPU Core Temperature (Celsius Degree)'')\<rparr>"

text \<open>
  The body of the \<^verbatim>\<open>while\<close> loop of \<^verbatim>\<open>monitor_loop\<close> for one non-empty line read from
  the subprocess.
\<close>

definition handle_line ::
  "(int, DeviceMetadata) dict \<Rightarrow> int \<Rightarrow> int \<Rightarrow> monitor_state \<Rightarrow> string
    \<Rightarrow> py_error + monitor_state" where
  "handle_line metadata bar_width term_width st line =
     (case parse_csv_line line of
        Inl e \<Rightarrow> Inl e
      | Inr [] \<Rightarrow> Inr st
      | Inr (first # others) \<Rightarrow>
          if first = ''Timestamp'' then Inr (st\<lparr>headers := Some (first # others)\<rparr>)
          else
            (case headers st of
               None \<Rightarrow> Inr st
             | Some hs \<Rightarrow>
                 if length (first # others) \<noteq> length hs then Inr st
                 else
                   (let row = dict_zip hs (first # others)
                    in case parse_int (dict_get row ''DeviceId'') of
                         None \<Rightarrow> Inr st
                       | Some device_id \<Rightarrow>
                           (let stats = dict_set (device_stats st) device_id (sample_of_row row)
                            in case render_dashboard stats metadata bar_width term_width
                                      (stdout st) of
                                 Inl e \<Rightarrow> Inl e
                               | Inr out \<Rightarrow> Inr (st\<lparr>device_stats := stats, stdout := out\<rparr>)))))"

text \<open>
  The loop over the lines the subprocess writes until it ends: an empty read is skipped.
  The result is the state when the loop ends, with the exception that ended it, if any.
\<close>

fun stream_loop ::
  "(int, DeviceMetadata) dict \<Rightarrow> int \<Rightarrow> int \<Rightarrow> monitor_state \<Rightarrow> string list
    \<Rightarrow> py_error option \<times> monitor_state" where
  "stream_loop metadata bar_width term_width st [] = (None, st)"
| "stream_loop metadata bar_width term_width st (line # lines) =
     (if line = [] then stream_loop metadata bar_width term_width st lines
      else case handle_line metadata bar_width term_width st line of
             Inl e \<Rightarrow> (Some e, st)
           | Inr st' \<Rightarrow> stream_loop metadata bar_width term_width st' lines)"

text \<open>The state of \<^verbatim>\<open>monitor_loop\<close> before the first line: no header, empty store.\<close>

definition initial_state :: monitor_state where
  "initial_state = \<lparr>headers = None, device_stats = [], stdout = []\<rparr>"

section \<open>The environment of the process\<close>

text \<open>
  What the program reads from outside is a parameter of the model: the executable search
  path, the file system, the outcome of each subprocess, the JSON decoder, the terminal.
  \<^item> \<open>env_which\<close> is \<^verbatim>\<open>shutil.which\<close>; \<open>env_executable p\<close> is
    \<^verbatim>\<open>os.path.exists(p) and os.access(p, os.X_OK)\<close>.
  \<^item> \<open>env_run argv\<close> is the outcome of \<^verbatim>\<open>subprocess.run(argv, ...)\<close>: the spawn fails with
    an exception, or the process exits with a return code and its standard output.
  \<^item> \<open>env_json_loads\<close> is \<^verbatim>\<open>json.loads\<close>, \<open>None\<close> standing for \<^verbatim>\<open>JSONDecodeError\<close>;
    \<open>env_str\<close> is \<^verbatim>\<open>str\<close> on a decoded value that is not a string.
  \<open>env_popen argv\<close> is the outcome of \<^verbatim>\<open>subprocess.Popen(argv, ...)\<close>: the spawn fails, or
    the lines that \<^verbatim>\<open>readline\<close> returns until the process has ended. Signals are not
    modelled: the loop runs to the end of the stream.
  \<^item> \<open>env_isatty\<close> is \<^verbatim>\<open>sys.stdout.isatty()\<close>; \<open>env_columns\<close> is the terminal width, \<open>None\<close>
    when \<^verbatim>\<open>shutil.get_terminal_size\<close> has to use its fallback.
\<close>

datatype json =
    JNull
  | JBool bool
  | JInt int
  | JFloat real
  | JString string
  | JArray "json list"
  | JObject "(string \<times> json) list"

datatype run_result = SpawnFailed py_error | Exited int string

record env =
  env_which :: "string \<Rightarrow> string option"
  env_executable :: "string \<Rightarrow> bool"
  env_run :: "string list \<Rightarrow> run_result"
  env_json_loads :: "string \<Rightarrow> json option"
  env_str :: "json \<Rightarrow> string"
  env_popen :: "string list \<Rightarrow> py_error + string list"
  env_isatty :: bool
  env_columns :: "int option"

text \<open>The namespace that \<^verbatim>\<open>parse_args\<close> returns.\<close>

record args =
  arg_cmd :: string
  arg_metrics :: string
  arg_bar_width :: "int option"

text \<open>\<^verbatim>\<open>shutil.get_terminal_size((fallback, 20)).columns\<close>.\<close>

definition get_terminal_columns :: "env \<Rightarrow> int \<Rightarrow> int" where
  "get_terminal_columns e fallback = (case env_columns e of None \<Rightarrow> fallback | Some c \<Rightarrow> c)"

section \<open>The command resolver\<close>

text \<open>\<^verbatim>\<open>os.path.isabs\<close> on a POSIX system.\<close>

definition isabs :: "string \<Rightarrow> bool" where
  "isabs p = (case p of [] \<Rightarrow> False | c # _ \<Rightarrow> c = CHR ''/'')"

definition candidates_of :: "string \<Rightarrow> string list" where
  "candidates_of binary = (if binary = AUTO_CMD then CMD_FALLBACKS else [binary])"

text \<open>One pass of the loop over the candidates: the resolved path, or \<open>None\<close>.\<close>

definition resolve_candidate :: "env \<Rightarrow> string \<Rightarrow> string option" where
  "resolve_candidate e candidate =
     (if isabs candidate then
        (if env_executable e candidate then Some candidate else None)
      else
        (case env_which e candidate of
           None \<Rightarrow> None
         | Some resolved \<Rightarrow> if resolved \<noteq> [] then Some resolved else None))"

definition not_found_message :: "string list \<Rightarrow> string" where
  "not_found_message errors =
     ''Unable to find any of: '' @ join '', '' errors
     @ ''. Set --cmd or XPUM_MONITOR_CMD to xpumcli/xpu-smi full path.''"

fun resolve_loop :: "env \<Rightarrow> string list \<Rightarrow> string list \<Rightarrow> py_error + string" where
  "resolve_loop e [] errors = Inl (FileNotFoundError (not_found_message errors))"
| "resolve_loop e (candidate # rest) errors =
     (case resolve_candidate e candidate of
        Some resolved \<Rightarrow> Inr resolved
      | None \<Rightarrow> resolve_loop e rest (errors @ [candidate]))"

definition resolve_command :: "env \<Rightarrow> string \<Rightarrow> py_error + string" where
  "resolve_command e binary = resolve_loop e (candidates_of binary) []"

section \<open>The metadata fetcher\<close>

text \<open>\<^verbatim>\<open>subprocess.run(argv, check=True, ...).stdout\<close>.\<close>

definition subprocess_run :: "env \<Rightarrow> string list \<Rightarrow> py_error + string" where
  "subprocess_run e argv =
     (case env_run e argv of
        SpawnFailed err \<Rightarrow> Inl err
      | Exited rc out \<Rightarrow> if rc \<noteq> 0 then Inl CalledProcessError else Inr out)"

text \<open>\<^verbatim>\<open>str.splitlines\<close> on code points below 256.\<close>

definition is_linebreak :: "char \<Rightarrow> bool" where
  "is_linebreak c = (c \<in> set [CHR 0x0A, CHR 0x0B, CHR 0x0C, CHR 0x0D, CHR 0x1C, CHR 0x1D,
                              CHR 0x1E, CHR 0x85])"

fun splitlines_from :: "string \<Rightarrow> string \<Rightarrow> string list" where
  "splitlines_from cur [] = (if cur = [] then [] else [cur])"
| "splitlines_from cur [c] = (if is_linebreak c then [cur] else [cur @ [c]])"
| "splitlines_from cur (c # d # cs) =
     (if c = CHR 0x0D \<and> d = CHR 0x0A then cur # splitlines_from [] cs
      else if is_linebreak c then cur # splitlines_from [] (d # cs)
      else splitlines_from (cur @ [c]) (d # cs))"

definition splitlines :: "string \<Rightarrow> string list" where
  "splitlines s = splitlines_from [] s"

text \<open>\<^verbatim>\<open>metadata.setdefault(device_id, DeviceMetadata())\<close>: the entry that is then updated.\<close>

definition setdefault_info :: "(int, DeviceMetadata) dict \<Rightarrow> int \<Rightarrow> DeviceMetadata" where
  "setdefault_info metadata device_id = metadata_get metadata device_id"

text \<open>The body of the loop over the rows of the tabular discovery output.\<close>

definition csv_discovery_row ::
  "string list \<Rightarrow> string list \<Rightarrow> (int, DeviceMetadata) dict \<Rightarrow> (int, DeviceMetadata) dict"
  where
  "csv_discovery_row hdrs row metadata =
     (if length row \<noteq> length hdrs then metadata
      else
        (let entry = dict_zip hdrs row
         in case parse_int (dict_get entry ''Device ID'') of
              None \<Rightarrow> metadata
            | Some device_id \<Rightarrow>
                (let info = setdefault_info metadata device_id;
                     info1 = (case dict_get entry ''Device Name'' of
                                None \<Rightarrow> info
                              | Some n \<Rightarrow>
                                  if n \<noteq> [] then
                                    info\<lparr>name :=
                                      Some (strip_chars (\<lambda>c. c = CHR 0x22 \<or> c = CHR '' '') n)\<rparr>
                                  else info);
                     info2 = (case parse_mib (dict_get entry ''Memory Physical Size'') of
                                None \<Rightarrow> info1
                              | Some total_mib \<Rightarrow> info1\<lparr>memory_total_mib := Some total_mib\<rparr>)
                 in dict_set metadata device_id info2)))"

text \<open>The first \<^verbatim>\<open>try\<close> block after the subprocess has returned its output.\<close>

definition csv_discovery ::
  "(int, DeviceMetadata) dict \<Rightarrow> string \<Rightarrow> py_error + (int, DeviceMetadata) dict" where
  "csv_discovery metadata dump_output =
     (case csv_reader_list (filter (\<lambda>l. l \<noteq> []) (splitlines dump_output)) of
        Inl err \<Rightarrow> Inl err
      | Inr [] \<Rightarrow> Inr metadata
      | Inr (hdrs # rows) \<Rightarrow> Inr (fold (csv_discovery_row hdrs) rows metadata))"

text \<open>Truth value of a decoded JSON value.\<close>

definition json_truthy :: "json \<Rightarrow> bool" where
  "json_truthy v =
     (case v of
        JNull \<Rightarrow> False
      | JBool b \<Rightarrow> b
      | JInt n \<Rightarrow> n \<noteq> 0
      | JFloat r \<Rightarrow> r \<noteq> 0
      | JString s \<Rightarrow> s \<noteq> []
      | JArray xs \<Rightarrow> xs \<noteq> []
      | JObject kvs \<Rightarrow> kvs \<noteq> [])"

text \<open>\<^verbatim>\<open>int(v)\<close> on a decoded JSON value.\<close>

definition int_of_json :: "json \<Rightarrow> py_error + int" where
  "int_of_json v =
     (case v of
        JNull \<Rightarrow> Inl TypeError
      | JBool b \<Rightarrow> Inr (if b then 1 else 0)
      | JInt n \<Rightarrow> Inr n
      | JFloat r \<Rightarrow> Inr (int_of_float r)
      | JString s \<Rightarrow> (case py_int s of None \<Rightarrow> Inl ValueError | Some n \<Rightarrow> Inr n)
      | JArray xs \<Rightarrow> Inl TypeError
      | JObject kvs \<Rightarrow> Inl TypeError)"

text \<open>The items that \<^verbatim>\<open>for item in v\<close> visits.\<close>

definition json_iter :: "json \<Rightarrow> py_error + json list" where
  "json_iter v =
     (case v of
        JArray xs \<Rightarrow> Inr xs
      | JObject kvs \<Rightarrow> Inr (map (\<lambda>(k, _). JString k) kvs)
      | JString s \<Rightarrow> Inr (map (\<lambda>c. JString [c]) s)
      | _ \<Rightarrow> Inl TypeError)"

text \<open>
  The value stored by \<^verbatim>\<open>info.name = item['device_name']\<close>, as the text the renderer will
  print for it.
\<close>

definition name_text :: "env \<Rightarrow> json \<Rightarrow> string" where
  "name_text e v = (case v of JString s \<Rightarrow> s | _ \<Rightarrow> env_str e v)"

text \<open>The body of the loop over \<^verbatim>\<open>device_list\<close>; \<^verbatim>\<open>item.get\<close> needs a dictionary.\<close>

definition json_discovery_item ::
  "env \<Rightarrow> json \<Rightarrow> (int, DeviceMetadata) dict \<Rightarrow> py_error + (int, DeviceMetadata) dict" where
  "json_discovery_item e item metadata =
     (case item of
        JObject kvs \<Rightarrow>
          (case dict_get kvs ''device_id'' of
             None \<Rightarrow> Inr metadata
           | Some JNull \<Rightarrow> Inr metadata
           | Some v \<Rightarrow>
               (case int_of_json v of
                  Inl err \<Rightarrow> Inl err
                | Inr device_id \<Rightarrow>
                    (let info = setdefault_info metadata device_id;
                         info1 = (case dict_get kvs ''device_name'' of
                                    None \<Rightarrow> info
                                  | Some n \<Rightarrow>
                                      if json_truthy n then info\<lparr>name := Some (name_text e n)\<rparr>
                                      else info)
                     in Inr (dict_set metadata device_id info1))))
      | _ \<Rightarrow> Inl AttributeError)"

fun json_discovery_items ::
  "env \<Rightarrow> json list \<Rightarrow> (int, DeviceMetadata) dict \<Rightarrow> py_error + (int, DeviceMetadata) dict"
  where
  "json_discovery_items e [] metadata = Inr metadata"
| "json_discovery_items e (item # items) metadata =
     (case json_discovery_item e item metadata of
        Inl err \<Rightarrow> Inl err
      | Inr metadata' \<Rightarrow> json_discovery_items e items metadata')"

text \<open>The second \<^verbatim>\<open>try\<close> block after the subprocess has returned its output.\<close>

definition json_discovery ::
  "env \<Rightarrow> (int, DeviceMetadata) dict \<Rightarrow> string \<Rightarrow> py_error + (int, DeviceMetadata) dict"
  where
  "json_discovery e metadata json_output =
     (case env_json_loads e json_output of
        None \<Rightarrow> Inl JSONDecodeError
      | Some data \<Rightarrow>
          (case data of
             JObject kvs \<Rightarrow>
               (case json_iter (case dict_get kvs ''device_list'' of
                                  None \<Rightarrow> JArray []
                                | Some v \<Rightarrow> v) of
                  Inl err \<Rightarrow> Inl err
                | Inr items \<Rightarrow> json_discovery_items e items metadata)
           | _ \<Rightarrow> Inl AttributeError))"

text \<open>
  \<^verbatim>\<open>try: ... except (E1, ...): pass\<close> around a block: an exception among \<open>caught\<close> leaves
  the dictionary as it was when the block raised. The exceptions caught here are raised
  by the subprocess call and by the decoder, before the block touches the dictionary.
\<close>

definition try_except_pass ::
  "py_error list \<Rightarrow> (int, DeviceMetadata) dict \<Rightarrow> py_error + (int, DeviceMetadata) dict
    \<Rightarrow> py_error + (int, DeviceMetadata) dict" where
  "try_except_pass caught metadata block =
     (case block of
        Inl err \<Rightarrow> if err \<in> set caught then Inr metadata else Inl err
      | Inr metadata' \<Rightarrow> Inr metadata')"

definition discovery_dump_argv :: "string \<Rightarrow> string list" where
  "discovery_dump_argv cmd_path = [cmd_path, ''discovery'', ''--dump'', ''1,2,16'']"

definition discovery_json_argv :: "string \<Rightarrow> string list" where
  "discovery_json_argv cmd_path = [cmd_path, ''discovery'', ''-j'']"

definition fetch_device_metadata :: "env \<Rightarrow> string \<Rightarrow> py_error + (int, DeviceMetadata) dict"
  where
  "fetch_device_metadata e cmd_path =
     (case try_except_pass [CalledProcessError] []
             (case subprocess_run e (discovery_dump_argv cmd_path) of
                Inl err \<Rightarrow> Inl err
              | Inr dump_output \<Rightarrow> csv_discovery [] dump_output) of
        Inl err \<Rightarrow> Inl err
      | Inr metadata \<Rightarrow>
          try_except_pass [CalledProcessError, JSONDecodeError] metadata
            (case subprocess_run e (discovery_json_argv cmd_path) of
               Inl err \<Rightarrow> Inl err
             | Inr json_output \<Rightarrow> json_discovery e metadata json_output))"

section \<open>The monitor loop and the entry point\<close>

definition launch_xpum :: "env \<Rightarrow> string \<Rightarrow> args \<Rightarrow> py_error + string list" where
  "launch_xpum e cmd_path a = env_popen e [cmd_path, ''dump'', ''-m'', arg_metrics a]"

definition compute_bar_width :: "env \<Rightarrow> args \<Rightarrow> int" where
  "compute_bar_width e a =
     (let auto = max 20 (min 60 (get_terminal_columns e 120 - 50))
      in case arg_bar_width a of
           None \<Rightarrow> auto
         | Some bw \<Rightarrow> if bw \<noteq> 0 \<and> bw > 0 then bw else auto)"

definition enter_alt_screen :: "env \<Rightarrow> ustr \<Rightarrow> bool \<times> ustr" where
  "enter_alt_screen e out =
     (if \<not> env_isatty e then (False, out)
      else (True, out @ ALT_SCREEN_ENABLE @ HIDE_CURSOR))"

definition exit_alt_screen :: "bool \<Rightarrow> ustr \<Rightarrow> ustr" where
  "exit_alt_screen active out = (if \<not> active then out else out @ SHOW_CURSOR @ ALT_SCREEN_DISABLE)"

text \<open>
  \<^verbatim>\<open>monitor_loop\<close>: the exception that leaves it, if any, and what it has written to the
  terminal.
\<close>

definition monitor_loop :: "env \<Rightarrow> args \<Rightarrow> py_error option \<times> ustr" where
  "monitor_loop e a =
     (case resolve_command e (arg_cmd a) of
        Inl err \<Rightarrow> (Some err, [])
      | Inr cmd_path \<Rightarrow>
          (case fetch_device_metadata e cmd_path of
             Inl err \<Rightarrow> (Some err, [])
           | Inr metadata \<Rightarrow>
               (case launch_xpum e cmd_path a of
                  Inl err \<Rightarrow> (Some err, [])
                | Inr lines \<Rightarrow>
                    (let bar_width = compute_bar_width e a;
                         (alt_screen_active, out) = enter_alt_screen e [];
                         (err, st) = stream_loop metadata bar_width (get_terminal_columns e 100)
                                       (initial_state\<lparr>stdout := out\<rparr>) lines
                     in (err, exit_alt_screen alt_screen_active (stdout st))))))"

text \<open>
  How the process ends: \<^verbatim>\<open>sys.exit(code)\<close> or a normal return (code 0), or an exception
  that nothing catches.
\<close>

datatype outcome = Exit int | Uncaught py_error

record process_result =
  outcome :: outcome
  stderr :: string
  terminal :: ustr

definition main :: "env \<Rightarrow> args \<Rightarrow> process_result" where
  "main e a =
     (case monitor_loop e a of
        (None, out) \<Rightarrow> \<lparr>outcome = Exit 0, stderr = [], terminal = out\<rparr>
      | (Some (FileNotFoundError msg), out) \<Rightarrow>
          \<lparr>outcome = Exit 1, stderr = msg @ [CHR 0x0A], terminal = out\<rparr>
      | (Some err, out) \<Rightarrow> \<lparr>outcome = Uncaught err, stderr = [], terminal = out\<rparr>)"

section \<open>Example inputs\<close>

text \<open>The header line and a data row of \<^verbatim>\<open>xpumcli dump -m 18,5,1,3\<close>.\<close>

definition example_header :: string where
  "example_header =
     ''Timestamp,DeviceId,GPU Memory Used (MiB),GPU Memory Utilization (%),GPU Power (W),GPU Core Temperature (Celsius Degree)''"

definition example_columns :: "string list" where
  "example_columns =
     [''Timestamp'', ''DeviceId'', ''GPU Memory Used (MiB)'', ''GPU Memory Utilization (%)'',
      ''GPU Power (W)'', ''GPU Core Temperature (Celsius Degree)'']"

definition example_row :: string where
  "example_row = ''06:14:46.000,    0, 2048, , 75.5, 61''"

definition example_fields :: "string list" where
  "example_fields = [''06:14:46.000'', ''0'', ''2048'', [], ''75.5'', ''61'']"

definition example_sample :: DeviceSample where
  "example_sample =
     \<lparr>timestamp = ''06:14:46.000'', mem_used_mib = Some 2048, mem_util_percent = None,
      power_watts = Some (151 / 2), temp_c = Some 61\<rparr>"

text \<open>A sample that carries a timestamp and no metric at all.\<close>

definition absent_sample :: DeviceSample where
  "absent_sample =
     \<lparr>timestamp = ''06:14:46.000'', mem_used_mib = None, mem_util_percent = None,
      power_watts = None, temp_c = None\<rparr>"

text \<open>The same sample with both memory metrics reported as zero.\<close>

definition zero_memory_sample :: DeviceSample where
  "zero_memory_sample =
     \<lparr>timestamp = ''06:14:46.000'', mem_used_mib = Some 0, mem_util_percent = Some 0,
      power_watts = None, temp_c = None\<rparr>"

text \<open>A machine on which no executable can be found or started.\<close>

definition no_tool_env :: env where
  "no_tool_env =
     \<lparr>env_which = (\<lambda>_. None), env_executable = (\<lambda>_. False),
      env_run = (\<lambda>_. SpawnFailed OSError), env_json_loads = (\<lambda>_. None),
      env_str = (\<lambda>_. []), env_popen = (\<lambda>_. Inl OSError),
      env_isatty = True, env_columns = Some 80\<rparr>"

definition default_args :: args where
  "default_args = \<lparr>arg_cmd = ''auto'', arg_metrics = ''18,5,1,3'', arg_bar_width = None\<rparr>"





section \<open>Properties\<close>

subsection \<open>Rounding to doubles\<close>


















subsection \<open>Text without blocks\<close>





subsection \<open>The filled part of the bar\<close>








subsection \<open>Colour thresholds\<close>

lemma colours_distinct:
  "COLOR_RED \<noteq> COLOR_YELLOW" "COLOR_RED \<noteq> COLOR_GREEN" "COLOR_YELLOW \<noteq> COLOR_GREEN"
  by (simp_all add: COLOR_RED_def COLOR_YELLOW_def COLOR_GREEN_def ustr_of_def)

text \<open>
  Claim C8. The bar is red from 85 percent on, yellow from 60 percent up to (not including)
  85, and green below 60; the thresholds belong to the higher band: exactly 85.0 is red,
  exactly 60.0 is yellow and 59.9 is green. The three colour codes differ from each other.
\<close>

theorem color_thresholds:
  fixes p :: real
  shows "(p \<ge> 85 \<longrightarrow> color_for_percent p = COLOR_RED)
       \<and> (60 \<le> p \<and> p < 85 \<longrightarrow> color_for_percent p = COLOR_YELLOW)
       \<and> (p < 60 \<longrightarrow> color_for_percent p = COLOR_GREEN)
       \<and> color_for_percent 85 = COLOR_RED
       \<and> color_for_percent 60 = COLOR_YELLOW
       \<and> color_for_percent (599 / 10) = COLOR_GREEN
       \<and> COLOR_RED \<noteq> COLOR_YELLOW \<and> COLOR_RED \<noteq> COLOR_GREEN \<and> COLOR_YELLOW \<noteq> COLOR_GREEN"
  using colours_distinct by (simp add: color_for_percent_def)

theorem color_thresholds_witness:
  "(90::real) \<ge> 85 \<and> color_for_percent 90 = COLOR_RED
   \<and> (60::real) \<le> 70 \<and> (70::real) < 85 \<and> color_for_percent 70 = COLOR_YELLOW
   \<and> (10::real) < 60 \<and> color_for_percent 10 = COLOR_GREEN"
  using color_thresholds [of 90] color_thresholds [of 70] color_thresholds [of 10] by simp

subsection \<open>Dictionaries and the totality of the renderer\<close>

lemma dict_set_nonempty: "dict_set d k v \<noteq> []"
  by (cases d) (simp_all add: dict_set_def)

lemma dict_get_set_same: "dict_get (dict_set d k v) k = Some v"
  by (simp add: dict_get_def dict_set_def update_conv')

lemma dict_get_in_keys: "k \<in> fst ` set d \<Longrightarrow> \<exists>v. dict_get d k = Some v"
  by (cases "map_of d k") (simp_all add: dict_get_def map_of_eq_None_iff)

lemma set_sorted_keys: "set (sorted_keys d) = fst ` set d"
  by (simp add: sorted_keys_def)

lemma device_entries_blocks:
  assumes "set ids \<subseteq> fst ` set stats"
  shows "\<exists>entries. device_entries stats md w dv n idx ids = Inr (concat entries)
           \<and> length entries = length ids
           \<and> (\<forall>i<length ids. \<exists>rest.
                 entries ! i = title_line (metadata_get md (ids ! i)) (ids ! i) # rest)"
  using assms
proof (induction ids arbitrary: idx)
  case Nil
  then show ?case by simp
next
  case (Cons d ds)
  from Cons.prems obtain sample where s: "dict_get stats d = Some sample"
    using dict_get_in_keys [of d stats] by auto
  define e where "e = [title_line (metadata_get md d) d,
                    mem_row sample (metadata_get md d) w,
                    power_row sample]
                   @ (if int idx < int n - 1 then [dv] else [])
                   @ [[]]"
  have entry: "device_entry stats md w dv n idx d = Inr e"
    by (simp add: device_entry_def s e_def Let_def)
  from Cons.prems have "set ds \<subseteq> fst ` set stats"
    by simp
  from Cons.IH [OF this, of "Suc idx"] obtain es where
    es: "device_entries stats md w dv n (Suc idx) ds = Inr (concat es)"
      "length es = length ds"
      "\<forall>i<length ds. \<exists>rest. es ! i = title_line (metadata_get md (ds ! i)) (ds ! i) # rest"
    by blast
  have "device_entries stats md w dv n idx (d # ds) = Inr (concat (e # es))"
    by (simp add: entry es(1))
  moreover have "length (e # es) = length (d # ds)"
    by (simp add: es(2))
  moreover have "\<forall>i<length (d # ds). \<exists>rest.
      (e # es) ! i = title_line (metadata_get md ((d # ds) ! i)) ((d # ds) ! i) # rest"
  proof (intro allI impI)
    fix i assume "i < length (d # ds)"
    then show "\<exists>rest. (e # es) ! i
        = title_line (metadata_get md ((d # ds) ! i)) ((d # ds) ! i) # rest"
      using es(3) by (cases i) (simp_all add: e_def)
  qed
  ultimately show ?case
    by blast
qed

lemma render_lines_blocks:
  "\<exists>entries. render_lines stats md w tw = Inr (header_lines stats @ concat entries)
     \<and> length entries = length (sorted_keys stats)
     \<and> (\<forall>i<length (sorted_keys stats). \<exists>rest.
           entries ! i = title_line (metadata_get md (sorted_keys stats ! i))
                           (sorted_keys stats ! i) # rest)"
proof -
  have "set (sorted_keys stats) \<subseteq> fst ` set stats"
    by (simp add: set_sorted_keys)
  from device_entries_blocks [OF this, of md w "divider_of tw" "length (sorted_keys stats)" 0]
  obtain es where
    es: "device_entries stats md w (divider_of tw) (length (sorted_keys stats)) 0
           (sorted_keys stats) = Inr (concat es)"
      "length es = length (sorted_keys stats)"
      "\<forall>i<length (sorted_keys stats). \<exists>rest.
           es ! i = title_line (metadata_get md (sorted_keys stats ! i))
                           (sorted_keys stats ! i) # rest"
    by blast
  have "render_lines stats md w tw = Inr (header_lines stats @ concat es)"
    by (simp add: render_lines_def Let_def es(1))
  with es(2,3) show ?thesis
    by blast
qed

lemma render_dashboard_total: "\<exists>out. render_dashboard stats md w tw stdout0 = Inr out"
proof -
  from render_lines_blocks [of stats md w tw] obtain ls where
    "render_lines stats md w tw = Inr ls"
    by blast
  then show ?thesis
    by (simp add: render_dashboard_def)
qed

lemma join_snoc: "xs \<noteq> [] \<Longrightarrow> join sep (xs @ [y]) = join sep xs @ sep @ y"
  by (induction sep xs rule: join.induct) simp_all

lemma rstrip_append_keep:
  assumes "rstrip ys \<noteq> []"
  shows "rstrip (xs @ ys) = xs @ rstrip ys"
proof -
  from assms have "dropWhile glyph_isspace (rev ys) \<noteq> []"
    by (simp add: rstrip_def)
  then obtain g where "g \<in> set (rev ys)" "\<not> glyph_isspace g"
    by (auto simp: dropWhile_eq_Nil_conv)
  then have "dropWhile glyph_isspace (rev ys @ rev xs)
      = dropWhile glyph_isspace (rev ys) @ rev xs"
    by (rule dropWhile_append1)
  then show ?thesis
    by (simp add: rstrip_def)
qed

lemma rstrip_newline: "rstrip (xs @ NEWLINE) = rstrip xs"
  by (simp add: rstrip_def NEWLINE_def glyph_isspace_def py_isspace_def)

lemma rstrip_id:
  assumes "s \<noteq> []" "\<not> glyph_isspace (last s)"
  shows "rstrip s = s"
  using assms by (cases s rule: rev_cases) (simp_all add: rstrip_def)

lemma rstrip_placeholder: "rstrip (ustr_of NA_PLACEHOLDER) = ustr_of ''  N/A''"
  by (simp add: rstrip_def NA_PLACEHOLDER_def ustr_of_def glyph_isspace_def py_isspace_def)

lemma rstrip_temp_str:
  "rstrip (temp_str_of sample)
     = (case temp_c sample of
          Some t \<Rightarrow> ustr_of (fmt_f 5 1 t @ '' '' @ [CHR 0xB0] @ ''C'')
        | None \<Rightarrow> ustr_of ''  N/A'')"
proof (cases "temp_c sample")
  case None
  then show ?thesis
    by (simp add: temp_str_of_def rstrip_placeholder)
next
  case (Some t)
  have "rstrip (ustr_of (fmt_f 5 1 t @ '' '' @ [CHR 0xB0] @ ''C''))
      = ustr_of (fmt_f 5 1 t @ '' '' @ [CHR 0xB0] @ ''C'')"
    by (rule rstrip_id) (simp_all add: ustr_of_def glyph_isspace_def py_isspace_def)
  with Some show ?thesis
    by (simp add: temp_str_of_def)
qed

lemma rstrip_temp_str_nonempty: "rstrip (temp_str_of sample) \<noteq> []"
  by (cases "temp_c sample") (simp_all add: rstrip_temp_str ustr_of_def)

lemma rstrip_power_row:
  "rstrip (power_row sample)
     = ustr_of ''  Power '' @ power_str_of sample @ ustr_of '' | Temp ''
       @ rstrip (temp_str_of sample)"
proof -
  have "rstrip ((ustr_of ''  Power '' @ power_str_of sample @ ustr_of '' | Temp '')
                @ temp_str_of sample)
      = (ustr_of ''  Power '' @ power_str_of sample @ ustr_of '' | Temp '')
        @ rstrip (temp_str_of sample)"
    by (rule rstrip_append_keep) (rule rstrip_temp_str_nonempty)
  then show ?thesis
    by (simp add: power_row_def)
qed

lemma rstrip_power_row_nonempty: "rstrip (power_row sample) \<noteq> []"
  by (simp add: rstrip_power_row ustr_of_def)

lemma rstrip_joined_lines:
  assumes "ls \<noteq> []" "rstrip p \<noteq> []"
  shows "rstrip (join NEWLINE (ls @ [p, []])) = join NEWLINE (ls @ [rstrip p])"
proof -
  have "join NEWLINE (ls @ [p, []]) = join NEWLINE ((ls @ [p]) @ [[]])"
    by simp
  also have "\<dots> = join NEWLINE (ls @ [p]) @ NEWLINE"
    using join_snoc [of "ls @ [p]" NEWLINE "[]"] by simp
  finally have "rstrip (join NEWLINE (ls @ [p, []])) = rstrip (join NEWLINE (ls @ [p]))"
    by (simp only: rstrip_newline)
  also have "join NEWLINE (ls @ [p]) = (join NEWLINE ls @ NEWLINE) @ p"
    using assms(1) by (simp add: join_snoc)
  also have "rstrip \<dots> = (join NEWLINE ls @ NEWLINE) @ rstrip p"
    by (rule rstrip_append_keep) (rule assms(2))
  also have "\<dots> = join NEWLINE (ls @ [rstrip p])"
    using assms(1) by (simp add: join_snoc)
  finally show ?thesis .
qed

lemma device_entries_exact:
  assumes "set ids \<subseteq> fst ` set stats"
  shows "\<exists>entries. device_entries stats md w dv n idx ids = Inr (concat entries)
           \<and> length entries = length ids
           \<and> (\<forall>i<length ids. \<exists>sample.
                 dict_get stats (ids ! i) = Some sample
                 \<and> entries ! i =
                     [title_line (metadata_get md (ids ! i)) (ids ! i),
                      mem_row sample (metadata_get md (ids ! i)) w,
                      power_row sample]
                     @ (if int (idx + i) < int n - 1 then [dv] else [])
                     @ [[]])"
  using assms
proof (induction ids arbitrary: idx)
  case Nil
  then show ?case by simp
next
  case (Cons d ds)
  from Cons.prems obtain sample where s: "dict_get stats d = Some sample"
    using dict_get_in_keys [of d stats] by auto
  define e where "e = [title_line (metadata_get md d) d,
                    mem_row sample (metadata_get md d) w,
                    power_row sample]
                   @ (if int idx < int n - 1 then [dv] else [])
                   @ [[]]"
  have entry: "device_entry stats md w dv n idx d = Inr e"
    by (simp add: device_entry_def s e_def Let_def)
  from Cons.prems have "set ds \<subseteq> fst ` set stats"
    by simp
  from Cons.IH [OF this, of "Suc idx"] obtain es where
    es: "device_entries stats md w dv n (Suc idx) ds = Inr (concat es)"
      "length es = length ds"
      "\<forall>i<length ds. \<exists>sample.
                 dict_get stats (ds ! i) = Some sample
                 \<and> es ! i =
                     [title_line (metadata_get md (ds ! i)) (ds ! i),
                      mem_row sample (metadata_get md (ds ! i)) w,
                      power_row sample]
                     @ (if int (Suc idx + i) < int n - 1 then [dv] else [])
                     @ [[]]"
    by blast
  have "device_entries stats md w dv n idx (d # ds) = Inr (concat (e # es))"
    by (simp add: entry es(1))
  moreover have "length (e # es) = length (d # ds)"
    by (simp add: es(2))
  moreover have "\<forall>i<length (d # ds). \<exists>sample.
                 dict_get stats ((d # ds) ! i) = Some sample
                 \<and> (e # es) ! i =
                     [title_line (metadata_get md ((d # ds) ! i)) ((d # ds) ! i),
                      mem_row sample (metadata_get md ((d # ds) ! i)) w,
                      power_row sample]
                     @ (if int (idx + i) < int n - 1 then [dv] else [])
                     @ [[]]"
  proof (intro allI impI)
    fix i assume i: "i < length (d # ds)"
    show "\<exists>sample.
                 dict_get stats ((d # ds) ! i) = Some sample
                 \<and> (e # es) ! i =
                     [title_line (metadata_get md ((d # ds) ! i)) ((d # ds) ! i),
                      mem_row sample (metadata_get md ((d # ds) ! i)) w,
                      power_row sample]
                     @ (if int (idx + i) < int n - 1 then [dv] else [])
                     @ [[]]"
    proof (cases i)
      case 0
      then show ?thesis
        using s by (simp add: e_def)
    next
      case (Suc j)
      with i have "j < length ds"
        by simp
      with es(3) Suc show ?thesis
        by simp
    qed
  qed
  ultimately show ?case
    by blast
qed

lemma sorted_keys_nonempty: "stats \<noteq> [] \<Longrightarrow> sorted_keys stats \<noteq> []"
  by (cases stats) (auto simp: sorted_keys_def dest: arg_cong [where f = set])

lemma render_dashboard_written:
  assumes "stats \<noteq> []"
  shows "\<exists>blocks.
           render_dashboard stats md w tw out
             = Inr (out @ CLEAR_SCREEN @ CURSOR_HOME
                    @ join NEWLINE (header_lines stats @ concat blocks) @ NEWLINE)
           \<and> length blocks = length (sorted_keys stats)
           \<and> (\<forall>i<length (sorted_keys stats). \<exists>sample.
                 dict_get stats (sorted_keys stats ! i) = Some sample
                 \<and> blocks ! i =
                     (if i + 1 < length (sorted_keys stats)
                      then [title_line (metadata_get md (sorted_keys stats ! i))
                              (sorted_keys stats ! i),
                            mem_row sample (metadata_get md (sorted_keys stats ! i)) w,
                            power_row sample,
                            divider_of tw,
                            []]
                      else [title_line (metadata_get md (sorted_keys stats ! i))
                              (sorted_keys stats ! i),
                            mem_row sample (metadata_get md (sorted_keys stats ! i)) w,
                            rstrip (power_row sample)]))"
proof -
  define ids where "ids = sorted_keys stats"
  define n where "n = length ids"
  have "ids \<noteq> []"
    unfolding ids_def by (rule sorted_keys_nonempty [OF assms])
  then have n: "0 < n"
    by (simp add: n_def)
  have "set ids \<subseteq> fst ` set stats"
    by (simp add: ids_def set_sorted_keys)
  from device_entries_exact [OF this, of md w "divider_of tw" n 0]
  obtain es where
    es: "device_entries stats md w (divider_of tw) n 0 ids = Inr (concat es)"
      "length es = n"
      "\<forall>i<n. \<exists>sample.
          dict_get stats (ids ! i) = Some sample
          \<and> es ! i = [title_line (metadata_get md (ids ! i)) (ids ! i),
                      mem_row sample (metadata_get md (ids ! i)) w,
                      power_row sample]
                     @ (if int (0 + i) < int n - 1 then [divider_of tw] else [])
                     @ [[]]"
    unfolding n_def by blast
  from es(3) n obtain s where
    s: "dict_get stats (ids ! (n - 1)) = Some s"
      "es ! (n - 1) = [title_line (metadata_get md (ids ! (n - 1))) (ids ! (n - 1)),
                       mem_row s (metadata_get md (ids ! (n - 1))) w,
                       power_row s, []]"
    by (auto dest!: spec [where x = "n - 1"])
  define t where "t = title_line (metadata_get md (ids ! (n - 1))) (ids ! (n - 1))"
  define m where "m = mem_row s (metadata_get md (ids ! (n - 1))) w"
  from es(2) n have nonempty: "es \<noteq> []"
    by auto
  then have l: "last es = [t, m, power_row s, []]"
    using s(2) es(2) by (simp add: last_conv_nth t_def m_def)
  from nonempty have "es = butlast es @ [last es]"
    by simp
  then have split: "es = butlast es @ [[t, m, power_row s, []]]"
    by (simp only: l)
  define blocks where "blocks = butlast es @ [[t, m, rstrip (power_row s)]]"
  have lines: "render_lines stats md w tw
      = Inr (header_lines stats @ concat es)"
    using es(1) by (simp add: render_lines_def Let_def ids_def n_def)
  have body: "header_lines stats @ concat es
      = (header_lines stats @ concat (butlast es) @ [t, m]) @ [power_row s, []]"
    by (subst split) simp
  have "header_lines stats @ concat (butlast es) @ [t, m] \<noteq> []"
    by simp
  then have "rstrip (join NEWLINE ((header_lines stats @ concat (butlast es) @ [t, m])
                                   @ [power_row s, []]))
      = join NEWLINE ((header_lines stats @ concat (butlast es) @ [t, m])
                       @ [rstrip (power_row s)])"
    using rstrip_power_row_nonempty by (rule rstrip_joined_lines)
  then have "rstrip (join NEWLINE (header_lines stats @ concat es))
      = join NEWLINE ((header_lines stats @ concat (butlast es) @ [t, m])
                       @ [rstrip (power_row s)])"
    by (simp only: body)
  also have "\<dots> = join NEWLINE (header_lines stats @ concat blocks)"
    by (simp add: blocks_def)
  finally have written: "render_dashboard stats md w tw out
      = Inr (out @ CLEAR_SCREEN @ CURSOR_HOME
             @ join NEWLINE (header_lines stats @ concat blocks) @ NEWLINE)"
    using assms lines by (simp add: render_dashboard_def clear_and_write_def)
  have len: "length blocks = n"
    using es(2) n by (simp add: blocks_def)
  have each: "\<forall>i<n. \<exists>sample.
      dict_get stats (ids ! i) = Some sample
      \<and> blocks ! i =
          (if i + 1 < n
           then [title_line (metadata_get md (ids ! i)) (ids ! i),
                 mem_row sample (metadata_get md (ids ! i)) w,
                 power_row sample, divider_of tw, []]
           else [title_line (metadata_get md (ids ! i)) (ids ! i),
                 mem_row sample (metadata_get md (ids ! i)) w,
                 rstrip (power_row sample)])"
  proof (intro allI impI)
    fix i assume i: "i < n"
    show "\<exists>sample.
      dict_get stats (ids ! i) = Some sample
      \<and> blocks ! i =
          (if i + 1 < n
           then [title_line (metadata_get md (ids ! i)) (ids ! i),
                 mem_row sample (metadata_get md (ids ! i)) w,
                 power_row sample, divider_of tw, []]
           else [title_line (metadata_get md (ids ! i)) (ids ! i),
                 mem_row sample (metadata_get md (ids ! i)) w,
                 rstrip (power_row sample)])"
    proof (cases "i + 1 < n")
      case True
      from es(3) i obtain sample where
        sm: "dict_get stats (ids ! i) = Some sample"
          "es ! i = [title_line (metadata_get md (ids ! i)) (ids ! i),
                      mem_row sample (metadata_get md (ids ! i)) w,
                      power_row sample]
                     @ (if int (0 + i) < int n - 1 then [divider_of tw] else [])
                     @ [[]]"
        by blast
      from True have "i < length (butlast es)"
        by (simp add: es(2))
      then have "blocks ! i = es ! i"
        by (simp add: blocks_def nth_append nth_butlast)
      with sm True show ?thesis
        by auto
    next
      case False
      with i have last: "i = n - 1"
        by simp
      from es(2) n have "blocks ! (n - 1) = [t, m, rstrip (power_row s)]"
        by (simp add: blocks_def nth_append)
      with s(1) False last show ?thesis
        by (simp add: t_def m_def)
    qed
  qed
  from written len each show ?thesis
    unfolding n_def ids_def by blast
qed

lemma handle_line_empty_store:
  assumes "handle_line md w tw st line = Inr st'" and "device_stats st' = []"
  shows "device_stats st = [] \<and> stdout st' = stdout st"
  using assms
  by (auto simp: handle_line_def Let_def dict_set_nonempty
      split: sum.splits list.splits if_splits option.splits)

lemma stream_loop_empty_store:
  assumes "stream_loop md w tw st lines = (e, st')" and "device_stats st' = []"
  shows "device_stats st = [] \<and> stdout st' = stdout st"
  using assms
proof (induction lines arbitrary: st)
  case Nil
  then show ?case by simp
next
  case (Cons line lines)
  show ?case
  proof (cases "line = []")
    case True
    with Cons show ?thesis by simp
  next
    case False
    show ?thesis
    proof (cases "handle_line md w tw st line")
      case (Inl err)
      with False Cons.prems show ?thesis by simp
    next
      case (Inr st1)
      with False Cons.prems have "stream_loop md w tw st1 lines = (e, st')"
        by simp
      from Cons.IH [OF this Cons.prems(2)] have "device_stats st1 = []" "stdout st' = stdout st1"
        by simp_all
      with handle_line_empty_store [OF Inr] show ?thesis
        by simp
    qed
  qed
qed

subsection \<open>The stream parser\<close>

lemma parse_example_header: "parse_csv_line example_header = Inr example_columns"
  unfolding example_header_def example_columns_def by code_simp

lemma parse_example_row: "parse_csv_line example_row = Inr example_fields"
  unfolding example_row_def example_fields_def by code_simp

lemma to_float_2048: "to_float (Some ''2048'') = Some 2048"
  by (simp add: to_float_def strip_def strip_chars_def py_isspace_def py_float_def
      split_sign_def float_number_def digitpart_def is_digit_def mantissa_def
      nat_of_digits_def digit_val_def)

lemma to_float_75_5: "to_float (Some ''75.5'') = Some (151 / 2)"
  by (simp add: to_float_def strip_def strip_chars_def py_isspace_def py_float_def
      split_sign_def float_number_def digitpart_def is_digit_def mantissa_def
      nat_of_digits_def digit_val_def float_exponent_def)

lemma to_float_61: "to_float (Some ''61'') = Some 61"
  by (simp add: to_float_def strip_def strip_chars_def py_isspace_def py_float_def
      split_sign_def float_number_def digitpart_def is_digit_def mantissa_def
      nat_of_digits_def digit_val_def)

lemma to_float_empty: "to_float (Some []) = None"
  by (simp add: to_float_def strip_def strip_chars_def)

lemma example_row_dict:
  "dict_zip example_columns example_fields = zip example_columns example_fields"
  unfolding example_columns_def example_fields_def by code_simp

lemma example_row_device_id:
  "parse_int (dict_get (dict_zip example_columns example_fields) ''DeviceId'') = Some 0"
  unfolding example_columns_def example_fields_def by code_simp

lemma example_row_sample:
  "sample_of_row (dict_zip example_columns example_fields) = example_sample"
  unfolding example_row_dict
  by (simp add: sample_of_row_def example_sample_def example_columns_def example_fields_def
      get_or_empty_def dict_get_def to_float_2048 to_float_75_5 to_float_61 to_float_empty)

lemma handle_line_header:
  assumes "parse_csv_line line = Inr parsed" "parsed \<noteq> []" "hd parsed = ''Timestamp''"
  shows "handle_line md w tw st line = Inr (st\<lparr>headers := Some parsed\<rparr>)"
  using assms by (cases parsed) (simp_all add: handle_line_def)

lemma handle_line_blank:
  assumes "parse_csv_line line = Inr []"
  shows "handle_line md w tw st line = Inr st"
  using assms by (simp add: handle_line_def)

lemma handle_line_no_header:
  assumes "parse_csv_line line = Inr parsed" "parsed \<noteq> []" "hd parsed \<noteq> ''Timestamp''"
    "headers st = None"
  shows "handle_line md w tw st line = Inr st"
  using assms by (cases parsed) (simp_all add: handle_line_def)

lemma handle_line_column_mismatch:
  assumes "parse_csv_line line = Inr parsed" "parsed \<noteq> []" "hd parsed \<noteq> ''Timestamp''"
    "headers st = Some hs" "length parsed \<noteq> length hs"
  shows "handle_line md w tw st line = Inr st"
  using assms by (cases parsed) (simp_all add: handle_line_def)

lemma handle_line_no_device_id:
  assumes "parse_csv_line line = Inr parsed" "parsed \<noteq> []" "hd parsed \<noteq> ''Timestamp''"
    "headers st = Some hs" "length parsed = length hs"
    "parse_int (dict_get (dict_zip hs parsed) ''DeviceId'') = None"
  shows "handle_line md w tw st line = Inr st"
  using assms by (cases parsed) (simp_all add: handle_line_def Let_def)

lemma handle_line_sample:
  assumes "parse_csv_line line = Inr parsed" "parsed \<noteq> []" "hd parsed \<noteq> ''Timestamp''"
    "headers st = Some hs" "length parsed = length hs"
    "parse_int (dict_get (dict_zip hs parsed) ''DeviceId'') = Some d"
  shows "\<exists>out. handle_line md w tw st line =
           Inr (st\<lparr>device_stats := dict_set (device_stats st) d
                                      (sample_of_row (dict_zip hs parsed)),
                   stdout := out\<rparr>)"
proof -
  define stats where
    "stats = dict_set (device_stats st) d (sample_of_row (dict_zip hs parsed))"
  from render_dashboard_total [of stats md w tw "stdout st"] obtain out where
    out: "render_dashboard stats md w tw (stdout st) = Inr out"
    by blast
  from assms out have "handle_line md w tw st line
      = Inr (st\<lparr>device_stats := stats, stdout := out\<rparr>)"
    by (cases parsed) (simp_all add: handle_line_def Let_def stats_def)
  then show ?thesis
    unfolding stats_def by blast
qed

lemma to_float_absent:
  "to_float None = None"
  "strip v = [] \<Longrightarrow> to_float (Some v) = None"
  "py_float (strip v) = None \<Longrightarrow> to_float (Some v) = None"
  by (simp_all add: to_float_def Let_def)

lemma parse_int_absent:
  "parse_int None = None"
  "strip v = [] \<Longrightarrow> parse_int (Some v) = None"
  "py_int (strip v) = None \<Longrightarrow> parse_int (Some v) = None"
  by (simp_all add: parse_int_def Let_def)

lemma process_char_ordinary:
  assumes "\<not> is_newline c" "rd_state r \<noteq> EAT_CRNL"
    "int (length (rd_field r)) < field_size_limit"
  shows "\<exists>r'. parse_process_char r (Some c) = Inr r' \<and> rd_state r' \<noteq> EAT_CRNL
           \<and> length (rd_field r') \<le> Suc (length (rd_field r))"
  using assms
  by (cases "rd_state r")
    (auto simp: start_field_def parse_add_char_def set_state_def parse_save_field_def)

lemma process_char_last:
  assumes "rd_state r \<noteq> EAT_CRNL" "int (length (rd_field r)) < field_size_limit"
  shows "\<exists>r'. parse_process_char r (Some c) = Inr r'"
  using assms
  by (cases "rd_state r")
    (auto simp: start_field_def parse_add_char_def set_state_def parse_save_field_def)

lemma process_eol: "\<exists>r'. parse_process_char r None = Inr r'"
  by (cases "rd_state r") simp_all

lemma parse_line_total:
  assumes "rd_state r \<noteq> EAT_CRNL" "\<forall>c\<in>set (butlast line). \<not> is_newline c"
    "int (length (rd_field r)) + int (length line) \<le> field_size_limit"
  shows "\<exists>r'. parse_line r line = Inr r'"
  using assms
proof (induction line arbitrary: r)
  case Nil
  then show ?case
    using process_eol by simp
next
  case (Cons c cs)
  from Cons.prems(3) have room: "int (length (rd_field r)) < field_size_limit"
    by simp
  show ?case
  proof (cases "cs = []")
    case True
    from process_char_last [OF Cons.prems(1) room, of c] obtain r1 where
      "parse_process_char r (Some c) = Inr r1"
      by blast
    with True process_eol [of r1] show ?thesis
      by simp
  next
    case False
    with Cons.prems(2) have c: "\<not> is_newline c" and cs: "\<forall>c\<in>set (butlast cs). \<not> is_newline c"
      by simp_all
    from process_char_ordinary [OF c Cons.prems(1) room] obtain r1 where
      r1: "parse_process_char r (Some c) = Inr r1" "rd_state r1 \<noteq> EAT_CRNL"
        "length (rd_field r1) \<le> Suc (length (rd_field r))"
      by blast
    from r1(3) Cons.prems(3) have "int (length (rd_field r1)) + int (length cs) \<le> field_size_limit"
      by simp
    from Cons.IH [OF r1(2) cs this] r1(1) show ?thesis
      by simp
  qed
qed

lemma parse_csv_line_total:
  assumes "\<forall>c\<in>set (butlast line). \<not> is_newline c" "int (length line) \<le> field_size_limit"
  shows "\<exists>parsed. parse_csv_line line = Inr parsed"
proof -
  have "\<exists>r'. parse_line parse_reset line = Inr r'"
    using assms by (intro parse_line_total) (simp_all add: parse_reset_def)
  then obtain r' where "parse_line parse_reset line = Inr r'"
    by blast
  then show ?thesis
    by (auto simp: parse_csv_line_def csv_reader_list_def split: list.splits)
qed

text \<open>
  Claim C4. A line read from the stream has a line break at its end at most; take one that
  stays within the field size limit of the CSV reader. The reader splits it into fields.
  When the first field is \<^verbatim>\<open>Timestamp\<close> the fields become the active header and nothing
  else changes (no sample is stored, nothing is written); a data line that arrives while no
  header is active, or whose number of fields differs from the active header's, leaves the
  whole state unchanged, the sample store included.
\<close>

theorem header_capture_and_defensive_skip:
  assumes "\<forall>c\<in>set (butlast line). \<not> is_newline c"
    and "int (length line) \<le> field_size_limit"
  shows "\<exists>parsed. parse_csv_line line = Inr parsed
       \<and> (parsed = [] \<longrightarrow> handle_line md w tw st line = Inr st)
       \<and> (parsed \<noteq> [] \<and> hd parsed = ''Timestamp'' \<longrightarrow>
            handle_line md w tw st line = Inr (st\<lparr>headers := Some parsed\<rparr>)
            \<and> device_stats (st\<lparr>headers := Some parsed\<rparr>) = device_stats st
            \<and> stdout (st\<lparr>headers := Some parsed\<rparr>) = stdout st)
       \<and> (parsed \<noteq> [] \<and> hd parsed \<noteq> ''Timestamp'' \<and> headers st = None \<longrightarrow>
            handle_line md w tw st line = Inr st)
       \<and> (\<forall>hs. parsed \<noteq> [] \<and> hd parsed \<noteq> ''Timestamp'' \<and> headers st = Some hs
                 \<and> length parsed \<noteq> length hs \<longrightarrow>
            handle_line md w tw st line = Inr st)"
proof -
  from parse_csv_line_total [OF assms] obtain parsed where
    p: "parse_csv_line line = Inr parsed"
    by blast
  have blank: "parsed = [] \<longrightarrow> handle_line md w tw st line = Inr st"
    using handle_line_blank p by blast
  have header: "parsed \<noteq> [] \<and> hd parsed = ''Timestamp'' \<longrightarrow>
            handle_line md w tw st line = Inr (st\<lparr>headers := Some parsed\<rparr>)
            \<and> device_stats (st\<lparr>headers := Some parsed\<rparr>) = device_stats st
            \<and> stdout (st\<lparr>headers := Some parsed\<rparr>) = stdout st"
    using handle_line_header [OF p] by simp
  have early: "parsed \<noteq> [] \<and> hd parsed \<noteq> ''Timestamp'' \<and> headers st = None \<longrightarrow>
            handle_line md w tw st line = Inr st"
    using handle_line_no_header [OF p] by blast
  have mismatch: "\<forall>hs. parsed \<noteq> [] \<and> hd parsed \<noteq> ''Timestamp'' \<and> headers st = Some hs
                 \<and> length parsed \<noteq> length hs \<longrightarrow>
            handle_line md w tw st line = Inr st"
    using handle_line_column_mismatch [OF p] by blast
  from p blank header early mismatch show ?thesis
    by blast
qed

lemma example_lines_plain:
  "\<forall>c\<in>set (butlast example_header). \<not> is_newline c"
  "int (length example_header) \<le> field_size_limit"
  "\<forall>c\<in>set (butlast example_row). \<not> is_newline c"
  "int (length example_row) \<le> field_size_limit"
  by (simp_all add: example_header_def example_row_def is_newline_def field_size_limit_def)

theorem header_capture_and_defensive_skip_witness:
  "handle_line [] 20 80 initial_state example_header
     = Inr (initial_state\<lparr>headers := Some example_columns\<rparr>)
   \<and> handle_line [] 20 80 initial_state example_row = Inr initial_state
   \<and> handle_line [] 20 80 (initial_state\<lparr>headers := Some [''Timestamp'', ''DeviceId'']\<rparr>)
        example_row
     = Inr (initial_state\<lparr>headers := Some [''Timestamp'', ''DeviceId'']\<rparr>)"
proof -
  have cols: "example_columns \<noteq> []" "hd example_columns = ''Timestamp''"
    by (simp_all add: example_columns_def)
  have flds: "example_fields \<noteq> []" "hd example_fields \<noteq> ''Timestamp''"
    "length example_fields \<noteq> length [''Timestamp'', ''DeviceId'']"
    by (simp_all add: example_fields_def)
  have none: "headers initial_state = None"
    by (simp add: initial_state_def)
  have some: "headers (initial_state\<lparr>headers := Some [''Timestamp'', ''DeviceId'']\<rparr>)
      = Some [''Timestamp'', ''DeviceId'']"
    by simp
  from header_capture_and_defensive_skip [OF example_lines_plain(1,2),
      where md = "[]" and w = 20 and tw = 80 and st = initial_state]
    parse_example_header cols
  have a: "handle_line [] 20 80 initial_state example_header
     = Inr (initial_state\<lparr>headers := Some example_columns\<rparr>)"
    by auto
  from header_capture_and_defensive_skip [OF example_lines_plain(3,4),
      where md = "[]" and w = 20 and tw = 80 and st = initial_state]
    parse_example_row flds(1,2) none
  have b: "handle_line [] 20 80 initial_state example_row = Inr initial_state"
    by auto
  from header_capture_and_defensive_skip [OF example_lines_plain(3,4),
      where md = "[]" and w = 20 and tw = 80
        and st = "initial_state\<lparr>headers := Some [''Timestamp'', ''DeviceId'']\<rparr>"]
    parse_example_row flds some
  have c: "handle_line [] 20 80 (initial_state\<lparr>headers := Some [''Timestamp'', ''DeviceId'']\<rparr>)
        example_row
     = Inr (initial_state\<lparr>headers := Some [''Timestamp'', ''DeviceId'']\<rparr>)"
    by auto
  from a b c show ?thesis
    by (intro conjI)
qed

text \<open>
  Claim C3. For a data row with as many fields as the active header: without a device id
  that parses (the column is missing, blank or not an integer) the row is ignored and the
  state, the store included, is unchanged; otherwise the store maps the device id to a
  sample whose four metric fields are each \<^const>\<open>to_float\<close> of the row's own column, and
  \<^const>\<open>to_float\<close> gives \<open>None\<close> for a missing column, a blank value and a value that does
  not parse, so that no field depends on another. The header line of the example followed
  by the row with device id \<open>0\<close>, memory used \<open>2048\<close>, no utilization, power \<open>75.5\<close> and
  temperature \<open>61\<close> stores the sample \<open>2048.0, None, 75.5, 61.0\<close> for device \<open>0\<close>.
\<close>

theorem row_fields_parse_independently:
  assumes "parse_csv_line line = Inr parsed" and "parsed \<noteq> []"
    and "hd parsed \<noteq> ''Timestamp''"
    and "headers st = Some hs" and "length parsed = length hs"
  defines "row \<equiv> dict_zip hs parsed"
  shows "(parse_int (dict_get row ''DeviceId'') = None \<longrightarrow>
            handle_line md w tw st line = Inr st)
       \<and> (\<forall>d. parse_int (dict_get row ''DeviceId'') = Some d \<longrightarrow>
            (\<exists>out st'. handle_line md w tw st line = Inr st'
               \<and> st' = st\<lparr>device_stats := dict_set (device_stats st) d (sample_of_row row),
                           stdout := out\<rparr>
               \<and> dict_get (device_stats st') d = Some (sample_of_row row)))
       \<and> mem_used_mib (sample_of_row row) = to_float (dict_get row ''GPU Memory Used (MiB)'')
       \<and> mem_util_percent (sample_of_row row)
           = to_float (dict_get row ''GPU Memory Utilization (%)'')
       \<and> power_watts (sample_of_row row) = to_float (dict_get row ''GPU Power (W)'')
       \<and> temp_c (sample_of_row row)
           = to_float (dict_get row ''GPU Core Temperature (Celsius Degree)'')
       \<and> to_float None = None
       \<and> (\<forall>v. strip v = [] \<longrightarrow> to_float (Some v) = None)
       \<and> (\<forall>v. py_float (strip v) = None \<longrightarrow> to_float (Some v) = None)
       \<and> parse_int None = None
       \<and> (\<forall>v. strip v = [] \<longrightarrow> parse_int (Some v) = None)
       \<and> (\<forall>v. py_int (strip v) = None \<longrightarrow> parse_int (Some v) = None)
       \<and> (\<forall>st0. \<exists>out.
            handle_line md w tw st0 example_header = Inr (st0\<lparr>headers := Some example_columns\<rparr>)
            \<and> handle_line md w tw (st0\<lparr>headers := Some example_columns\<rparr>) example_row
                = Inr (st0\<lparr>headers := Some example_columns,
                          device_stats := dict_set (device_stats st0) 0 example_sample,
                          stdout := out\<rparr>)
            \<and> mem_used_mib example_sample = Some 2048
            \<and> mem_util_percent example_sample = None
            \<and> power_watts example_sample = Some (151 / 2)
            \<and> temp_c example_sample = Some 61)"
proof -
  have ignored: "parse_int (dict_get row ''DeviceId'') = None \<longrightarrow>
            handle_line md w tw st line = Inr st"
    unfolding row_def using handle_line_no_device_id [OF assms(1-5)] by blast
  have stored: "\<forall>d. parse_int (dict_get row ''DeviceId'') = Some d \<longrightarrow>
            (\<exists>out st'. handle_line md w tw st line = Inr st'
               \<and> st' = st\<lparr>device_stats := dict_set (device_stats st) d (sample_of_row row),
                           stdout := out\<rparr>
               \<and> dict_get (device_stats st') d = Some (sample_of_row row))"
  proof (intro allI impI)
    fix d assume "parse_int (dict_get row ''DeviceId'') = Some d"
    from handle_line_sample [OF assms(1-5) this [unfolded row_def], of md w tw]
    obtain out where "handle_line md w tw st line =
           Inr (st\<lparr>device_stats := dict_set (device_stats st) d (sample_of_row row),
                   stdout := out\<rparr>)"
      unfolding row_def by blast
    moreover have "dict_get (device_stats
        (st\<lparr>device_stats := dict_set (device_stats st) d (sample_of_row row),
            stdout := out\<rparr>)) d = Some (sample_of_row row)"
      by (simp add: dict_get_set_same)
    ultimately show "\<exists>out st'. handle_line md w tw st line = Inr st'
               \<and> st' = st\<lparr>device_stats := dict_set (device_stats st) d (sample_of_row row),
                           stdout := out\<rparr>
               \<and> dict_get (device_stats st') d = Some (sample_of_row row)"
      by blast
  qed
  have fields: "mem_used_mib (sample_of_row row) = to_float (dict_get row ''GPU Memory Used (MiB)'')"
    "mem_util_percent (sample_of_row row) = to_float (dict_get row ''GPU Memory Utilization (%)'')"
    "power_watts (sample_of_row row) = to_float (dict_get row ''GPU Power (W)'')"
    "temp_c (sample_of_row row) = to_float (dict_get row ''GPU Core Temperature (Celsius Degree)'')"
    by (simp_all add: sample_of_row_def)
  have example: "\<forall>st0. \<exists>out.
            handle_line md w tw st0 example_header = Inr (st0\<lparr>headers := Some example_columns\<rparr>)
            \<and> handle_line md w tw (st0\<lparr>headers := Some example_columns\<rparr>) example_row
                = Inr (st0\<lparr>headers := Some example_columns,
                          device_stats := dict_set (device_stats st0) 0 example_sample,
                          stdout := out\<rparr>)
            \<and> mem_used_mib example_sample = Some 2048
            \<and> mem_util_percent example_sample = None
            \<and> power_watts example_sample = Some (151 / 2)
            \<and> temp_c example_sample = Some 61"
  proof
    fix st0 :: monitor_state
    have h: "handle_line md w tw st0 example_header
        = Inr (st0\<lparr>headers := Some example_columns\<rparr>)"
      by (rule handle_line_header [OF parse_example_header])
        (simp_all add: example_columns_def)
    have "\<exists>out. handle_line md w tw (st0\<lparr>headers := Some example_columns\<rparr>) example_row =
           Inr (st0\<lparr>headers := Some example_columns\<rparr>
                 \<lparr>device_stats :=
                    dict_set (device_stats (st0\<lparr>headers := Some example_columns\<rparr>)) 0
                      (sample_of_row (dict_zip example_columns example_fields)),
                  stdout := out\<rparr>)"
      by (rule handle_line_sample [OF parse_example_row _ _ _ _ example_row_device_id])
        (simp_all add: example_columns_def example_fields_def)
    then obtain out where
      "handle_line md w tw (st0\<lparr>headers := Some example_columns\<rparr>) example_row
                = Inr (st0\<lparr>headers := Some example_columns,
                          device_stats := dict_set (device_stats st0) 0 example_sample,
                          stdout := out\<rparr>)"
      by (auto simp: example_row_sample)
    with h show "\<exists>out.
            handle_line md w tw st0 example_header = Inr (st0\<lparr>headers := Some example_columns\<rparr>)
            \<and> handle_line md w tw (st0\<lparr>headers := Some example_columns\<rparr>) example_row
                = Inr (st0\<lparr>headers := Some example_columns,
                          device_stats := dict_set (device_stats st0) 0 example_sample,
                          stdout := out\<rparr>)
            \<and> mem_used_mib example_sample = Some 2048
            \<and> mem_util_percent example_sample = None
            \<and> power_watts example_sample = Some (151 / 2)
            \<and> temp_c example_sample = Some 61"
      by (auto simp: example_sample_def)
  qed
  from ignored stored fields to_float_absent parse_int_absent example show ?thesis
    by blast
qed

theorem row_fields_parse_independently_witness:
  "\<exists>out st'.
     handle_line [] 20 80 (initial_state\<lparr>headers := Some example_columns\<rparr>) example_row
       = Inr st'
     \<and> st' = initial_state\<lparr>headers := Some example_columns\<rparr>
          \<lparr>device_stats :=
             dict_set (device_stats (initial_state\<lparr>headers := Some example_columns\<rparr>)) 0
               (sample_of_row (dict_zip example_columns example_fields)),
           stdout := out\<rparr>
     \<and> dict_get (device_stats st') 0
         = Some (sample_of_row (dict_zip example_columns example_fields))"
proof -
  have flds: "example_fields \<noteq> []" "hd example_fields \<noteq> ''Timestamp''"
    by (simp_all add: example_fields_def)
  have hdr: "headers (initial_state\<lparr>headers := Some example_columns\<rparr>) = Some example_columns"
    by simp
  have len: "length example_fields = length example_columns"
    by (simp add: example_fields_def example_columns_def)
  from row_fields_parse_independently [OF parse_example_row flds hdr len,
      where md = "[]" and w = 20 and tw = 80] example_row_device_id
  show ?thesis
    by blast
qed

text \<open>
  Claim C10. With an empty sample store \<^verbatim>\<open>render_dashboard\<close> returns the terminal output
  unchanged: no screen clear, no payload. Whatever lines the loop reads, as long as the
  store is still empty when it ends, the store was empty before and the terminal output is
  what it was before.
\<close>

theorem empty_store_writes_nothing:
  "render_dashboard [] md w tw out = Inr out
   \<and> (\<forall>st lines e st'. stream_loop md w tw st lines = (e, st') \<and> device_stats st' = []
        \<longrightarrow> device_stats st = [] \<and> stdout st' = stdout st)"
  using stream_loop_empty_store by (simp add: render_dashboard_def) blast

theorem empty_store_writes_nothing_witness:
  "stream_loop [] 20 80 initial_state
      [''0, 1.5, 2'', [], ''Timestamp, DeviceId'', ''12:00:00, x'']
     = (None, initial_state\<lparr>headers := Some [''Timestamp'', ''DeviceId'']\<rparr>)
   \<and> device_stats (initial_state\<lparr>headers := Some [''Timestamp'', ''DeviceId'']\<rparr>) = []
   \<and> stdout (initial_state\<lparr>headers := Some [''Timestamp'', ''DeviceId'']\<rparr>)
       = stdout initial_state"
proof -
  have run: "stream_loop [] 20 80 initial_state
      [''0, 1.5, 2'', [], ''Timestamp, DeviceId'', ''12:00:00, x'']
     = (None, initial_state\<lparr>headers := Some [''Timestamp'', ''DeviceId'']\<rparr>)"
    unfolding initial_state_def by code_simp
  have empty: "device_stats (initial_state\<lparr>headers := Some [''Timestamp'', ''DeviceId'']\<rparr>) = []"
    by (simp add: initial_state_def)
  from empty_store_writes_nothing [of "[]" 20 80 "[]"] run empty
  have "stdout (initial_state\<lparr>headers := Some [''Timestamp'', ''DeviceId'']\<rparr>)
       = stdout initial_state"
    by blast
  with run empty show ?thesis
    by (intro conjI)
qed

subsection \<open>Evaluating the renderer\<close>






























subsection \<open>Memory percent\<close>



subsection \<open>Device order\<close>

lemma sorted_sorted_keys: "sorted (sorted_keys d)"
  by (simp add: sorted_keys_def)

lemma keys_store_fold:
  "fst ` set (fold (\<lambda>(d, s) store. dict_set store d s) arrivals store0)
     = fst ` set store0 \<union> fst ` set arrivals"
proof (induction arrivals arbitrary: store0)
  case Nil
  then show ?case by simp
next
  case (Cons a arrivals)
  obtain d s where a: "a = (d, s)"
    by (cases a)
  have "fst ` set (dict_set store0 d s) = insert d (fst ` set store0)"
    by (simp add: dict_set_def dom_update)
  with Cons.IH [of "dict_set store0 d s"] show ?case
    by (auto simp: a)
qed

lemma distinct_store_fold:
  "distinct (map fst store0) \<Longrightarrow>
   distinct (map fst (fold (\<lambda>(d, s) store. dict_set store d s) arrivals store0))"
proof (induction arrivals arbitrary: store0)
  case Nil
  then show ?case by simp
next
  case (Cons a arrivals)
  obtain d s where a: "a = (d, s)"
    by (cases a)
  from Cons.prems have "distinct (map fst (dict_set store0 d s))"
    by (simp add: dict_set_def distinct_update)
  from Cons.IH [OF this] show ?case
    by (simp add: a)
qed

lemma sorted_keys_store:
  fixes arrivals :: "(int \<times> 'v) list"
  shows "sorted_keys (fold (\<lambda>(d, s) store. dict_set store d s) arrivals [])
     = sorted_list_of_set (fst ` set arrivals)"
proof -
  define store where "store = fold (\<lambda>(d, s) store. dict_set store d s) arrivals []"
  have "distinct (map fst store)"
    unfolding store_def by (rule distinct_store_fold) simp
  then have "sort (map fst store) = sorted_list_of_set (set (map fst store))"
    by (simp only: sorted_list_of_set_sort_remdups distinct_remdups_id)
  moreover have "set (map fst store) = fst ` set arrivals"
    using keys_store_fold [of arrivals "[]"] by (simp add: store_def)
  ultimately show ?thesis
    by (simp add: sorted_keys_def store_def)
qed

lemma list_of_length_3: "length xs = 3 \<Longrightarrow> xs = [xs ! 0, xs ! 1, xs ! 2]"
  by (cases xs; cases "tl xs"; cases "tl (tl xs)") auto

text \<open>
  Claim C9. For every sample store the renderer walks the device ids in ascending order:
  \<^const>\<open>sorted_keys\<close> is sorted and holds exactly the keys of the store, and the rendered
  lines are the header lines followed by one block per id of that list, in that order, each
  block starting with the title line of its id. What \<^verbatim>\<open>render_dashboard\<close> writes for a
  non-empty store is, after the clear-screen and cursor-home codes, these header lines and
  blocks joined by line breaks: the block of the \<open>i\<close>-th id in ascending order holds the
  title, the memory row and the power row of the sample stored under that id, followed by a
  divider and a blank line, except for the last block, which ends with its power row
  stripped on the right. The store built from any sequence of arrivals has the sorted set of
  the arrived ids as its list, so two arrival sequences with the same ids render in the same
  order; ids arriving as 3, 1, 2 render as 1, 2, 3.
\<close>

theorem devices_render_in_ascending_order:
  fixes device_stats :: "(int, DeviceSample) dict"
  shows "sorted (sorted_keys device_stats)
       \<and> set (sorted_keys device_stats) = fst ` set device_stats
       \<and> (\<exists>entries.
             render_lines device_stats md w tw = Inr (header_lines device_stats @ concat entries)
             \<and> length entries = length (sorted_keys device_stats)
             \<and> (\<forall>i<length (sorted_keys device_stats). \<exists>rest.
                   entries ! i = title_line (metadata_get md (sorted_keys device_stats ! i))
                                   (sorted_keys device_stats ! i) # rest))
       \<and> (device_stats \<noteq> [] \<longrightarrow>
            (\<exists>blocks.
               render_dashboard device_stats md w tw out
                 = Inr (out @ CLEAR_SCREEN @ CURSOR_HOME
                        @ join NEWLINE (header_lines device_stats @ concat blocks) @ NEWLINE)
               \<and> length blocks = length (sorted_keys device_stats)
               \<and> (\<forall>i<length (sorted_keys device_stats). \<exists>sample.
                     dict_get device_stats (sorted_keys device_stats ! i) = Some sample
                     \<and> blocks ! i =
                         (if i + 1 < length (sorted_keys device_stats)
                          then [title_line (metadata_get md (sorted_keys device_stats ! i))
                                  (sorted_keys device_stats ! i),
                                mem_row sample
                                  (metadata_get md (sorted_keys device_stats ! i)) w,
                                power_row sample,
                                divider_of tw,
                                []]
                          else [title_line (metadata_get md (sorted_keys device_stats ! i))
                                  (sorted_keys device_stats ! i),
                                mem_row sample
                                  (metadata_get md (sorted_keys device_stats ! i)) w,
                                rstrip (power_row sample)]))))
       \<and> (\<forall>arrivals :: (int \<times> DeviceSample) list.
             sorted_keys (fold (\<lambda>(d, s) store. dict_set store d s) arrivals [])
               = sorted_list_of_set (fst ` set arrivals))
       \<and> (\<forall>a1 a2 :: (int \<times> DeviceSample) list. fst ` set a1 = fst ` set a2 \<longrightarrow>
             sorted_keys (fold (\<lambda>(d, s) store. dict_set store d s) a1 [])
               = sorted_keys (fold (\<lambda>(d, s) store. dict_set store d s) a2 []))
       \<and> (\<forall>s1 s2 s3 :: DeviceSample.
             sorted_keys (fold (\<lambda>(d, s) store. dict_set store d s) [(3, s3), (1, s1), (2, s2)] [])
               = [1, 2, 3])"
proof -
  have ordered: "sorted (sorted_keys device_stats)"
    by (rule sorted_sorted_keys)
  have keys: "set (sorted_keys device_stats) = fst ` set device_stats"
    by (rule set_sorted_keys)
  note blocks = render_lines_blocks [of device_stats md w tw]
  have written: "device_stats \<noteq> [] \<longrightarrow>
            (\<exists>blocks.
               render_dashboard device_stats md w tw out
                 = Inr (out @ CLEAR_SCREEN @ CURSOR_HOME
                        @ join NEWLINE (header_lines device_stats @ concat blocks) @ NEWLINE)
               \<and> length blocks = length (sorted_keys device_stats)
               \<and> (\<forall>i<length (sorted_keys device_stats). \<exists>sample.
                     dict_get device_stats (sorted_keys device_stats ! i) = Some sample
                     \<and> blocks ! i =
                         (if i + 1 < length (sorted_keys device_stats)
                          then [title_line (metadata_get md (sorted_keys device_stats ! i))
                                  (sorted_keys device_stats ! i),
                                mem_row sample
                                  (metadata_get md (sorted_keys device_stats ! i)) w,
                                power_row sample,
                                divider_of tw,
                                []]
                          else [title_line (metadata_get md (sorted_keys device_stats ! i))
                                  (sorted_keys device_stats ! i),
                                mem_row sample
                                  (metadata_get md (sorted_keys device_stats ! i)) w,
                                rstrip (power_row sample)])))"
    by (rule impI) (rule render_dashboard_written)
  have arrivals: "\<forall>arrivals :: (int \<times> DeviceSample) list.
             sorted_keys (fold (\<lambda>(d, s) store. dict_set store d s) arrivals [])
               = sorted_list_of_set (fst ` set arrivals)"
    by (simp add: sorted_keys_store)
  have independent: "\<forall>a1 a2 :: (int \<times> DeviceSample) list. fst ` set a1 = fst ` set a2 \<longrightarrow>
             sorted_keys (fold (\<lambda>(d, s) store. dict_set store d s) a1 [])
               = sorted_keys (fold (\<lambda>(d, s) store. dict_set store d s) a2 [])"
    by (simp add: sorted_keys_store)
  have example: "\<forall>s1 s2 s3 :: DeviceSample.
             sorted_keys (fold (\<lambda>(d, s) store. dict_set store d s) [(3, s3), (1, s1), (2, s2)] [])
               = [1, 2, 3]"
    by (simp add: sorted_keys_def dict_set_def)
  from ordered keys blocks written arrivals independent example show ?thesis
    by (intro conjI)
qed

theorem devices_render_in_ascending_order_witness:
  "fst ` set [(3::int, absent_sample), (1, example_sample), (2, zero_memory_sample)]
     = fst ` set [(2::int, example_sample), (3, example_sample), (1, absent_sample)]
   \<and> sorted_keys (fold (\<lambda>(d, s) store. dict_set store d s)
         [(3, absent_sample), (1, example_sample), (2, zero_memory_sample)] [])
     = sorted_keys (fold (\<lambda>(d, s) store. dict_set store d s)
         [(2, example_sample), (3, example_sample), (1, absent_sample)] [])
   \<and> sorted_keys (fold (\<lambda>(d, s) store. dict_set store d s)
         [(3, absent_sample), (1, example_sample), (2, zero_memory_sample)] [])
     = [1, 2, 3]
   \<and> (\<exists>entries.
         render_lines [(3, absent_sample), (1, example_sample), (2, zero_memory_sample)]
             [] 20 80
           = Inr (header_lines [(3, absent_sample), (1, example_sample), (2, zero_memory_sample)]
                  @ concat entries)
         \<and> length entries = 3
         \<and> (\<exists>rest. entries ! 0 = title_line (metadata_get [] 1) 1 # rest)
         \<and> (\<exists>rest. entries ! 1 = title_line (metadata_get [] 2) 2 # rest)
         \<and> (\<exists>rest. entries ! 2 = title_line (metadata_get [] 3) 3 # rest))
   \<and> render_dashboard [(3, absent_sample), (1, example_sample), (2, zero_memory_sample)]
         [] 20 80 []
       = Inr (CLEAR_SCREEN @ CURSOR_HOME
              @ join NEWLINE
                  (header_lines [(3, absent_sample), (1, example_sample), (2, zero_memory_sample)]
                   @ [title_line DeviceMetadata_default 1,
                      mem_row example_sample DeviceMetadata_default 20,
                      power_row example_sample,
                      divider_of 80,
                      [],
                      title_line DeviceMetadata_default 2,
                      mem_row zero_memory_sample DeviceMetadata_default 20,
                      power_row zero_memory_sample,
                      divider_of 80,
                      [],
                      title_line DeviceMetadata_default 3,
                      mem_row absent_sample DeviceMetadata_default 20,
                      rstrip (power_row absent_sample)])
              @ NEWLINE)"
proof -
  define store where
    "store = [(3::int, absent_sample), (1, example_sample), (2, zero_memory_sample)]"
  have ids: "fst ` set [(3::int, absent_sample), (1, example_sample), (2, zero_memory_sample)]
     = fst ` set [(2::int, example_sample), (3, example_sample), (1, absent_sample)]"
    by auto
  note t = devices_render_in_ascending_order
    [where device_stats = store and md = "[]" and w = 20 and tw = 80 and out = "[]"]
  from t ids have same: "sorted_keys (fold (\<lambda>(d, s) store. dict_set store d s)
         [(3, absent_sample), (1, example_sample), (2, zero_memory_sample)] [])
     = sorted_keys (fold (\<lambda>(d, s) store. dict_set store d s)
         [(2, example_sample), (3, example_sample), (1, absent_sample)] [])"
    by blast
  from t have order: "sorted_keys (fold (\<lambda>(d, s) store. dict_set store d s)
         [(3, absent_sample), (1, example_sample), (2, zero_memory_sample)] [])
     = [1, 2, 3]"
    by blast
  have k: "sorted_keys store = [1, 2, 3]"
    by (simp add: sorted_keys_def store_def)
  from t obtain entries where
    e: "render_lines store [] 20 80 = Inr (header_lines store @ concat entries)"
      "length entries = length (sorted_keys store)"
      "\<forall>i<length (sorted_keys store). \<exists>rest.
          entries ! i = title_line (metadata_get [] (sorted_keys store ! i))
                                   (sorted_keys store ! i) # rest"
    by blast
  from e(2) have len: "length entries = 3"
    by (simp add: k)
  have "\<exists>rest. entries ! 0 = title_line (metadata_get [] 1) 1 # rest"
    "\<exists>rest. entries ! 1 = title_line (metadata_get [] 2) 2 # rest"
    "\<exists>rest. entries ! 2 = title_line (metadata_get [] 3) 3 # rest"
    using e(3) [rule_format, of 0] e(3) [rule_format, of 1] e(3) [rule_format, of 2]
    by (simp_all add: k)
  with e(1) len have blocks: "\<exists>entries.
         render_lines store [] 20 80 = Inr (header_lines store @ concat entries)
         \<and> length entries = 3
         \<and> (\<exists>rest. entries ! 0 = title_line (metadata_get [] 1) 1 # rest)
         \<and> (\<exists>rest. entries ! 1 = title_line (metadata_get [] 2) 2 # rest)
         \<and> (\<exists>rest. entries ! 2 = title_line (metadata_get [] 3) 3 # rest)"
    by blast
  have ne: "store \<noteq> []"
    by (simp add: store_def)
  have meta: "metadata_get [] d = DeviceMetadata_default" for d
    by (simp add: metadata_get_def dict_get_def)
  have get: "dict_get store 1 = Some example_sample"
    "dict_get store 2 = Some zero_memory_sample"
    "dict_get store 3 = Some absent_sample"
    by (simp_all add: store_def dict_get_def)
  from t ne obtain bs where
    w: "render_dashboard store [] 20 80 []
          = Inr ([] @ CLEAR_SCREEN @ CURSOR_HOME
                 @ join NEWLINE (header_lines store @ concat bs) @ NEWLINE)"
    and bl: "length bs = length (sorted_keys store)"
    and be: "\<forall>i<length (sorted_keys store). \<exists>sample.
                dict_get store (sorted_keys store ! i) = Some sample
                \<and> bs ! i =
                    (if i + 1 < length (sorted_keys store)
                     then [title_line (metadata_get [] (sorted_keys store ! i))
                             (sorted_keys store ! i),
                           mem_row sample (metadata_get [] (sorted_keys store ! i)) 20,
                           power_row sample,
                           divider_of 80,
                           []]
                     else [title_line (metadata_get [] (sorted_keys store ! i))
                             (sorted_keys store ! i),
                           mem_row sample (metadata_get [] (sorted_keys store ! i)) 20,
                           rstrip (power_row sample)])"
    by blast
  have b0: "bs ! 0 = [title_line DeviceMetadata_default 1,
                      mem_row example_sample DeviceMetadata_default 20,
                      power_row example_sample, divider_of 80, []]"
    using be [rule_format, of 0] by (auto simp: k meta get)
  have b1: "bs ! 1 = [title_line DeviceMetadata_default 2,
                      mem_row zero_memory_sample DeviceMetadata_default 20,
                      power_row zero_memory_sample, divider_of 80, []]"
    using be [rule_format, of 1] by (auto simp: k meta get)
  have b2: "bs ! 2 = [title_line DeviceMetadata_default 3,
                      mem_row absent_sample DeviceMetadata_default 20,
                      rstrip (power_row absent_sample)]"
    using be [rule_format, of 2] by (auto simp: k meta get)
  from bl have "length bs = 3"
    by (simp add: k)
  then have "bs = [bs ! 0, bs ! 1, bs ! 2]"
    by (rule list_of_length_3)
  then have "concat bs = bs ! 0 @ bs ! 1 @ bs ! 2"
    by (metis concat.simps(1) concat.simps(2) append_Nil2)
  with w b0 b1 b2 have written: "render_dashboard store [] 20 80 []
       = Inr (CLEAR_SCREEN @ CURSOR_HOME
              @ join NEWLINE
                  (header_lines store
                   @ [title_line DeviceMetadata_default 1,
                      mem_row example_sample DeviceMetadata_default 20,
                      power_row example_sample,
                      divider_of 80,
                      [],
                      title_line DeviceMetadata_default 2,
                      mem_row zero_memory_sample DeviceMetadata_default 20,
                      power_row zero_memory_sample,
                      divider_of 80,
                      [],
                      title_line DeviceMetadata_default 3,
                      mem_row absent_sample DeviceMetadata_default 20,
                      rstrip (power_row absent_sample)])
              @ NEWLINE)"
    by simp
  from ids same order blocks written show ?thesis
    unfolding store_def by (intro conjI)
qed

subsection \<open>Command resolution\<close>

lemma sublist_extend:
  assumes "sublist c m"
  shows "sublist c (p @ m @ s)"
proof -
  from assms obtain ps ss where "m = ps @ c @ ss"
    by (auto simp: sublist_def)
  then have "p @ m @ s = (p @ ps) @ c @ (ss @ s)"
    by simp
  then show ?thesis
    unfolding sublist_def by blast
qed

lemma sublist_join:
  assumes "c \<in> set xs"
  shows "sublist c (join sep xs)"
  using assms
proof (induction sep xs rule: join.induct)
  case (1 sep)
  then show ?case by simp
next
  case (2 sep x)
  then show ?case by simp
next
  case (3 sep x y ys)
  show ?case
  proof (cases "c = x")
    case True
    then show ?thesis
      by simp
  next
    case False
    with 3 have "sublist c (join sep (y # ys))"
      by simp
    from sublist_extend [OF this, of "x @ sep" "[]"] show ?thesis
      by simp
  qed
qed

lemma sublist_not_found_message:
  assumes "c \<in> set errors"
  shows "sublist c (not_found_message errors)"
  unfolding not_found_message_def
  by (rule sublist_extend [OF sublist_join [OF assms]])

lemma resolve_loop_all_fail:
  assumes "\<forall>c\<in>set cs. resolve_candidate e c = None"
  shows "resolve_loop e cs errors = Inl (FileNotFoundError (not_found_message (errors @ cs)))"
  using assms by (induction cs arbitrary: errors) simp_all

lemma resolve_loop_some:
  assumes "resolve_loop e cs errors = Inr p"
  shows "\<exists>c\<in>set cs. resolve_candidate e c = Some p"
  using assms by (induction cs arbitrary: errors) (auto split: option.splits)

text \<open>
  Claim C6. When no candidate resolves (for \<^verbatim>\<open>auto\<close> the two fallback names, otherwise
  the one requested name or path), \<^verbatim>\<open>resolve_command\<close> raises \<^verbatim>\<open>FileNotFoundError\<close> with a
  message that lists the candidates in the order tried, so every candidate occurs in it;
  \<^verbatim>\<open>main\<close> then writes that message and a line break to the error stream and exits with
  code 1, and nothing has been written to the terminal. For \<^verbatim>\<open>auto\<close> the message names
  \<^verbatim>\<open>xpumcli\<close> and \<^verbatim>\<open>xpu-smi\<close>.
\<close>

theorem unresolved_command_exits_1:
  assumes "\<forall>c\<in>set (candidates_of binary). resolve_candidate e c = None"
  shows "resolve_command e binary
           = Inl (FileNotFoundError (not_found_message (candidates_of binary)))
       \<and> (\<forall>c\<in>set (candidates_of binary). sublist c (not_found_message (candidates_of binary)))
       \<and> (\<forall>a. arg_cmd a = binary \<longrightarrow>
             main e a = \<lparr>outcome = Exit 1,
                         stderr = not_found_message (candidates_of binary) @ [CHR 0x0A],
                         terminal = []\<rparr>)
       \<and> candidates_of ''auto'' = [''xpumcli'', ''xpu-smi'']
       \<and> (binary \<noteq> ''auto'' \<longrightarrow> candidates_of binary = [binary])
       \<and> not_found_message [''xpumcli'', ''xpu-smi'']
           = ''Unable to find any of: xpumcli, xpu-smi. Set --cmd or XPUM_MONITOR_CMD to xpumcli/xpu-smi full path.''"
proof -
  have r: "resolve_command e binary
           = Inl (FileNotFoundError (not_found_message (candidates_of binary)))"
    using resolve_loop_all_fail [OF assms, of "[]"] by (simp add: resolve_command_def)
  have names: "\<forall>c\<in>set (candidates_of binary).
      sublist c (not_found_message (candidates_of binary))"
    using sublist_not_found_message by blast
  have m: "\<forall>a. arg_cmd a = binary \<longrightarrow>
             main e a = \<lparr>outcome = Exit 1,
                         stderr = not_found_message (candidates_of binary) @ [CHR 0x0A],
                         terminal = []\<rparr>"
    by (simp add: main_def monitor_loop_def r)
  have auto: "candidates_of ''auto'' = [''xpumcli'', ''xpu-smi'']"
    by (simp add: candidates_of_def AUTO_CMD_def CMD_FALLBACKS_def)
  have other: "binary \<noteq> ''auto'' \<longrightarrow> candidates_of binary = [binary]"
    by (simp add: candidates_of_def AUTO_CMD_def)
  have msg: "not_found_message [''xpumcli'', ''xpu-smi'']
           = ''Unable to find any of: xpumcli, xpu-smi. Set --cmd or XPUM_MONITOR_CMD to xpumcli/xpu-smi full path.''"
    by (simp add: not_found_message_def)
  from r names m auto other msg show ?thesis
    by blast
qed

theorem unresolved_command_exits_1_witness:
  "resolve_candidate no_tool_env ''xpumcli'' = None
   \<and> resolve_candidate no_tool_env ''xpu-smi'' = None
   \<and> resolve_command no_tool_env ''auto''
       = Inl (FileNotFoundError (not_found_message (candidates_of ''auto'')))
   \<and> sublist ''xpumcli'' (not_found_message (candidates_of ''auto''))
   \<and> sublist ''xpu-smi'' (not_found_message (candidates_of ''auto''))
   \<and> main no_tool_env default_args
       = \<lparr>outcome = Exit 1,
          stderr = not_found_message (candidates_of ''auto'') @ [CHR 0x0A],
          terminal = []\<rparr>"
proof -
  have h: "\<forall>c\<in>set (candidates_of ''auto''). resolve_candidate no_tool_env c = None"
    by (simp add: resolve_candidate_def no_tool_env_def)
  have c: "''xpumcli'' \<in> set (candidates_of ''auto'')" "''xpu-smi'' \<in> set (candidates_of ''auto'')"
    by (simp_all add: candidates_of_def AUTO_CMD_def CMD_FALLBACKS_def)
  have a: "arg_cmd default_args = ''auto''"
    by (simp add: default_args_def)
  note t = unresolved_command_exits_1 [OF h]
  from t have r: "resolve_command no_tool_env ''auto''
       = Inl (FileNotFoundError (not_found_message (candidates_of ''auto'')))"
    by blast
  from t c have n: "sublist ''xpumcli'' (not_found_message (candidates_of ''auto''))"
    "sublist ''xpu-smi'' (not_found_message (candidates_of ''auto''))"
    by blast+
  from t a have m: "main no_tool_env default_args
       = \<lparr>outcome = Exit 1,
          stderr = not_found_message (candidates_of ''auto'') @ [CHR 0x0A],
          terminal = []\<rparr>"
    by blast
  have each: "resolve_candidate no_tool_env ''xpumcli'' = None"
    "resolve_candidate no_tool_env ''xpu-smi'' = None"
    by (simp_all add: resolve_candidate_def no_tool_env_def)
  from each r n m show ?thesis
    by (intro conjI)
qed

subsection \<open>Device discovery\<close>

















end
